theory Spec2Isabelle
  imports Complex_Main "HOL-Library.Word"
begin

unbundle bit_operations_syntax

section \<open>GpuScan (gpuscan.c): a shallow embedding\<close>

text \<open>
  The development follows \<^verbatim>\<open>src/gpuscan.c\<close>. C structs are records, enums are
  datatypes, \<^verbatim>\<open>cl_uint\<close> and \<^verbatim>\<open>BlockNumber\<close> are 32-bit words, \<^verbatim>\<open>size_t\<close>,
  \<^verbatim>\<open>long\<close> and the 64-bit atomic counters are 64-bit words (LP64, the platform of
  the CUDA toolkit). Every \<^verbatim>\<open>elog(ERROR)\<close>, \<^verbatim>\<open>werror\<close> and failed assertion is a
  value \<open>Inl e\<close> of a sum type.
\<close>

type_synonym cl_uint = "32 word"
type_synonym size_t = "64 word"

datatype error =
    ElogError string      \<comment> \<open>\<^verbatim>\<open>elog(ERROR, ...)\<close> on the backend side\<close>
  | WError string         \<comment> \<open>\<^verbatim>\<open>werror(...)\<close> on the GPU worker side\<close>
  | AssertFailure string  \<comment> \<open>a violated \<^verbatim>\<open>Assert\<close>, or the undefined behaviour behind it\<close>

definition bindE :: "error + 'a \<Rightarrow> ('a \<Rightarrow> error + 'b) \<Rightarrow> error + 'b" where
  "bindE m f = (case m of Inl e \<Rightarrow> Inl e | Inr x \<Rightarrow> f x)"

subsection \<open>Expression nodes\<close>

text \<open>
  The expression trees of the planner, as far as this file looks into them: a
  \<^verbatim>\<open>NULL\<close> pointer, a \<^verbatim>\<open>Var\<close> with its \<^verbatim>\<open>varno\<close>, \<^verbatim>\<open>varattno\<close> and
  \<^verbatim>\<open>vartype\<close>, or any other node, given by a tag and its children.
\<close>

datatype expr =
    NullExpr
  | Var nat int nat
  | Node string "expr list"

record TargetEntry =
  tle_expr :: expr
  resjunk :: bool

text \<open>The special range-table indexes of PostgreSQL (\<^verbatim>\<open>primnodes.h\<close>).\<close>

definition INNER_VAR :: nat where "INNER_VAR = 65000"
definition INDEX_VAR :: nat where "INDEX_VAR = 65002"

definition IS_SPECIAL_VARNO :: "nat \<Rightarrow> bool" where
  "IS_SPECIAL_VARNO varno = (INNER_VAR \<le> varno)"

subsection \<open>Private fields of the plan node: \<^verbatim>\<open>form_gpuscan_info\<close> / \<^verbatim>\<open>deform_gpuscan_info\<close>\<close>

text \<open>
  A cell of a PostgreSQL \<^verbatim>\<open>List\<close> is a pointer to a node. The cells stored by
  \<^verbatim>\<open>form_gpuscan_info\<close> are \<^verbatim>\<open>Value\<close> nodes made by \<^verbatim>\<open>makeString\<close> and
  \<^verbatim>\<open>makeInteger\<close> (which takes and keeps a \<^verbatim>\<open>long\<close>) and pointers to other
  lists; \<open>'x\<close> is the type of the nodes in those lists.
\<close>

datatype 'x pgnode =
    T_String string
  | T_Integer "64 word"
  | T_List "'x list"

definition makeString :: "string \<Rightarrow> 'x pgnode" where
  "makeString s = T_String s"

definition makeInteger :: "64 word \<Rightarrow> 'x pgnode" where
  "makeInteger i = T_Integer i"

definition lappend :: "'a list \<Rightarrow> 'a \<Rightarrow> 'a list" where
  "lappend l d = l @ [d]"

text \<open>\<^verbatim>\<open>list_nth\<close> asserts that the index is in range.\<close>

definition list_nth :: "'a list \<Rightarrow> nat \<Rightarrow> error + 'a" where
  "list_nth l n = (if n < length l then Inr (l ! n) else Inl (AssertFailure ''list_nth''))"

text \<open>
  \<^verbatim>\<open>strVal\<close> and \<^verbatim>\<open>intVal\<close> read a field of the \<^verbatim>\<open>Value\<close> union without a check;
  on a node of another kind the read is meaningless, which the model reports. The cast
  of a cell to \<^verbatim>\<open>List *\<close> is treated alike.
\<close>

definition strVal :: "'x pgnode \<Rightarrow> error + string" where
  "strVal v = (case v of T_String s \<Rightarrow> Inr s | _ \<Rightarrow> Inl (AssertFailure ''strVal''))"

definition intVal :: "'x pgnode \<Rightarrow> error + 64 word" where
  "intVal v = (case v of T_Integer i \<Rightarrow> Inr i | _ \<Rightarrow> Inl (AssertFailure ''intVal''))"

definition listVal :: "'x pgnode \<Rightarrow> error + 'x list" where
  "listVal v = (case v of T_List l \<Rightarrow> Inr l | _ \<Rightarrow> Inl (AssertFailure ''List''))"

record ExtensibleNode =
  node_type :: nat
  extnodename :: "string option"

record 'x GpuScanInfo =
  ex :: ExtensibleNode
  kern_source :: string
  extra_flags :: cl_uint
  proj_tuple_sz :: cl_uint
  proj_extra_sz :: cl_uint
  nrows_per_block :: cl_uint
  ccache_refs :: "'x list"
  used_params :: "'x list"
  dev_quals :: "'x list"

text \<open>The fields of \<^verbatim>\<open>CustomScan\<close> that this file reads or writes.\<close>

record 'x CustomScan =
  custom_private :: "'x pgnode list"
  custom_exprs :: "'x pgnode list"
  custom_scan_tlist :: "TargetEntry list"

definition form_gpuscan_info :: "'x CustomScan \<Rightarrow> 'x GpuScanInfo \<Rightarrow> 'x CustomScan" where
  "form_gpuscan_info cscan gs_info =
    (let privs = [];
         exprs = [];
         privs = lappend privs (makeString (kern_source gs_info));
         privs = lappend privs (makeInteger (ucast (extra_flags gs_info)));
         privs = lappend privs (makeInteger (ucast (proj_tuple_sz gs_info)));
         privs = lappend privs (makeInteger (ucast (proj_extra_sz gs_info)));
         privs = lappend privs (makeInteger (ucast (nrows_per_block gs_info)));
         privs = lappend privs (T_List (ccache_refs gs_info));
         exprs = lappend exprs (T_List (used_params gs_info));
         exprs = lappend exprs (T_List (dev_quals gs_info))
     in cscan\<lparr>custom_private := privs, custom_exprs := exprs\<rparr>)"

text \<open>\<^verbatim>\<open>palloc0\<close> zeroes the whole struct, so the \<^verbatim>\<open>ex\<close> header stays zero.\<close>

definition ExtensibleNode_zero :: ExtensibleNode where
  "ExtensibleNode_zero = \<lparr>node_type = 0, extnodename = None\<rparr>"

definition deform_gpuscan_info :: "'x CustomScan \<Rightarrow> error + 'x GpuScanInfo" where
  "deform_gpuscan_info cscan =
    (let privs = custom_private cscan;
         exprs = custom_exprs cscan
     in bindE (bindE (list_nth privs 0) strVal) (\<lambda>v_kern_source.
        bindE (bindE (list_nth privs 1) intVal) (\<lambda>v_extra_flags.
        bindE (bindE (list_nth privs 2) intVal) (\<lambda>v_proj_tuple_sz.
        bindE (bindE (list_nth privs 3) intVal) (\<lambda>v_proj_extra_sz.
        bindE (bindE (list_nth privs 4) intVal) (\<lambda>v_nrows_per_block.
        bindE (bindE (list_nth privs 5) listVal) (\<lambda>v_ccache_refs.
        bindE (bindE (list_nth exprs 0) listVal) (\<lambda>v_used_params.
        bindE (bindE (list_nth exprs 1) listVal) (\<lambda>v_dev_quals.
          Inr \<lparr>ex = ExtensibleNode_zero,
               kern_source = v_kern_source,
               extra_flags = ucast v_extra_flags,
               proj_tuple_sz = ucast v_proj_tuple_sz,
               proj_extra_sz = ucast v_proj_extra_sz,
               nrows_per_block = ucast v_nrows_per_block,
               ccache_refs = v_ccache_refs,
               used_params = v_used_params,
               dev_quals = v_dev_quals\<rparr>)))))))))"

subsection \<open>\<^verbatim>\<open>fixup_varnode_to_origin\<close>\<close>

text \<open>
  \<^verbatim>\<open>expression_tree_mutator\<close> copies a node and applies the mutator to its children;
  on a list it maps the mutator over the elements. The assertions are part of the
  model: a result \<open>Inr\<close> is one that no assertion stands against.
\<close>

fun fixup_varnode_to_origin :: "expr \<Rightarrow> TargetEntry list \<Rightarrow> error + expr"
  and fixup_varnode_list :: "expr list \<Rightarrow> TargetEntry list \<Rightarrow> error + expr list" where
  "fixup_varnode_to_origin NullExpr tlist = Inr NullExpr"
| "fixup_varnode_to_origin (Var varno varattno vartype) tlist =
    (if tlist \<noteq> []
     then (if varno \<noteq> INDEX_VAR
           then Inl (AssertFailure ''varnode->varno == INDEX_VAR'')
           else if \<not> (1 \<le> varattno \<and> varattno \<le> int (length tlist))
           then Inl (AssertFailure ''varattno within custom_scan_tlist'')
           else Inr (tle_expr (tlist ! nat (varattno - 1))))
     else if IS_SPECIAL_VARNO varno
     then Inl (AssertFailure ''!IS_SPECIAL_VARNO(varnode->varno)'')
     else Inr (Var varno varattno vartype))"
| "fixup_varnode_to_origin (Node tag args) tlist =
    bindE (fixup_varnode_list args tlist) (\<lambda>args. Inr (Node tag args))"
| "fixup_varnode_list [] tlist = Inr []"
| "fixup_varnode_list (a # args) tlist =
    bindE (fixup_varnode_to_origin a tlist) (\<lambda>a.
    bindE (fixup_varnode_list args tlist) (\<lambda>args. Inr (a # args)))"

subsection \<open>Chunks, tasks and the per-scan state\<close>

datatype CUresult = CUDA_SUCCESS | CUDA_ERROR_OUT_OF_MEMORY | CUDA_ERROR_OTHER nat

datatype kds_format =
    KDS_FORMAT_ROW | KDS_FORMAT_BLOCK | KDS_FORMAT_COLUMN
  | KDS_FORMAT_UNKNOWN  \<comment> \<open>any other tag; \<^verbatim>\<open>gpuscan_process_task\<close> rejects it\<close>

text \<open>
  \<^verbatim>\<open>kern_errorbuf\<close>. The error codes are constants of a header that is not part of
  this file; the two recoverable ones are named by the code, \<^verbatim>\<open>StromError_Success\<close>
  is the code 0 that \<^verbatim>\<open>memset\<close> leaves behind, every other code is
  \<open>StromError_Other n\<close>.
\<close>

datatype StromError =
    StromError_Success | StromError_CpuReCheck | StromError_DataStoreNoSpace
  | StromError_Other nat

record kern_errorbuf =
  errcode :: StromError
  kernel :: nat
  lineno :: nat

definition kern_errorbuf_zero :: kern_errorbuf where
  "kern_errorbuf_zero = \<lparr>errcode = StromError_Success, kernel = 0, lineno = 0\<rparr>"

text \<open>
  \<^verbatim>\<open>pgstrom_data_store\<close> with the fields of its \<^verbatim>\<open>kern_data_store\<close> that this file
  reads. \<open>pds_tuples\<close> is the content of the chunk as \<^verbatim>\<open>PDS_fetch_tuple\<close> hands it
  out, one tuple per call.
\<close>

record 'tup pgstrom_data_store =
  kds_format :: kds_format
  kds_length :: size_t
  kds_nitems :: cl_uint
  kds_nrooms :: cl_uint
  kds_nrows_per_block :: cl_uint
  nblocks_uncached :: cl_uint
  pds_tuples :: "'tup list"

record kern_resultbuf =
  nrels :: cl_uint
  nrooms :: cl_uint
  nitems :: cl_uint
  all_visible :: bool
  results :: "cl_uint list"

definition kern_resultbuf_zero :: kern_resultbuf where
  "kern_resultbuf_zero = \<lparr>nrels = 0, nrooms = 0, nitems = 0, all_visible = False, results = []\<rparr>"

text \<open>\<^verbatim>\<open>kern_gpuscan\<close>: the part of the task that the device program reads and writes.\<close>

record kern_gpuscan =
  kern_kerror :: kern_errorbuf
  nitems_in :: cl_uint
  nitems_out :: cl_uint
  extra_size :: cl_uint
  kparams_length :: size_t
  kern_kresults :: kern_resultbuf

text \<open>\<^verbatim>\<open>gscan->kresults\<close> is \<^verbatim>\<open>NULL\<close> or the address of the result buffer inside \<^verbatim>\<open>kern\<close>.\<close>

datatype kresults_ptr = NULL_kresults | KERN_GPUSCAN_RESULTBUF

record 'tup GpuScanTask =
  task_kerror :: kern_errorbuf      \<comment> \<open>\<^verbatim>\<open>task.kerror\<close>\<close>
  cpu_fallback :: bool              \<comment> \<open>\<^verbatim>\<open>task.cpu_fallback\<close>\<close>
  with_nvme_strom :: bool
  with_projection :: bool
  pds_src :: "'tup pgstrom_data_store"
  pds_dst :: "'tup pgstrom_data_store option"
  kresults :: kresults_ptr
  kern :: kern_gpuscan

record GpuScanRuntimeStat =
  nitems_filtered :: "64 word"
  ccache_count :: "64 word"

text \<open>
  Sizes, offsets and constants that come from headers outside this file
  (\<^verbatim>\<open>pg_strom.h\<close>, \<^verbatim>\<open>pg_config.h\<close>); they are parameters of the model.
\<close>

record layout =
  STROMALIGN_LEN :: size_t        \<comment> \<open>the alignment of \<^verbatim>\<open>STROMALIGN\<close>\<close>
  kds_colmeta_off :: size_t       \<comment> \<open>\<^verbatim>\<open>offsetof(kern_data_store, colmeta)\<close>\<close>
  sizeof_colmeta :: size_t        \<comment> \<open>\<^verbatim>\<open>sizeof(kern_colmeta)\<close>\<close>
  gscan_kparams_off :: size_t     \<comment> \<open>\<^verbatim>\<open>offsetof(GpuScanTask, kern.kparams)\<close>\<close>
  resultbuf_results_off :: size_t \<comment> \<open>\<^verbatim>\<open>offsetof(kern_resultbuf, results)\<close>\<close>
  BLCKSZ :: cl_uint              \<comment> \<open>the \<^verbatim>\<open>int\<close> constant of \<^verbatim>\<open>pg_config.h\<close>\<close>
  RELSEG_SIZE :: cl_uint         \<comment> \<open>blocks per segment file (\<^verbatim>\<open>pg_config.h\<close>)\<close>
  CCACHE_CHUNK_NBLOCKS :: cl_uint \<comment> \<open>blocks per chunk of the columnar cache, a power of 2\<close>

text \<open>\<^verbatim>\<open>TYPEALIGN(ALIGNVAL, LEN)\<close> of PostgreSQL, on \<^verbatim>\<open>uintptr_t\<close>.\<close>

definition TYPEALIGN :: "size_t \<Rightarrow> size_t \<Rightarrow> size_t" where
  "TYPEALIGN alignval len = (len + (alignval - 1)) AND NOT (alignval - 1)"

definition STROMALIGN :: "layout \<Rightarrow> size_t \<Rightarrow> size_t" where
  "STROMALIGN ly len = TYPEALIGN (STROMALIGN_LEN ly) len"

subsection \<open>Double precision\<close>

text \<open>
  \<^verbatim>\<open>gpuscan_create_task\<close> sizes the destination chunk in \<^verbatim>\<open>double\<close>. Only finite,
  non-negative values occur there, so a double is the pair \<open>(m, e)\<close> that stands for
  \<open>m * 2 ^ e\<close>, with \<open>m < 2 ^ 53\<close> (or \<open>m = 2 ^ 53\<close> right after rounding up,
  which denotes the same number as \<open>(2 ^ 52, e + 1)\<close>). A product is computed exactly
  and rounded to 53 significant bits, ties to even, which is IEEE 754 binary64
  multiplication; the exponent range is not modelled, the values here being between
  \<open>1\<close> and \<open>2 ^ 97\<close>, or zero.
\<close>

type_synonym double = "nat \<times> int"

fun bitlen :: "nat \<Rightarrow> nat" where
  "bitlen n = (if n = 0 then 0 else Suc (bitlen (n div 2)))"

declare bitlen.simps [simp del]

definition dbl_round :: "nat \<Rightarrow> int \<Rightarrow> double" where
  "dbl_round m e =
    (if bitlen m \<le> 53 then (m, e)
     else let k = bitlen m - 53;
              q = m div 2 ^ k;
              r = m mod 2 ^ k;
              half = 2 ^ (k - 1)
          in ((if half < r \<or> (r = half \<and> odd q) then q + 1 else q), e + int k))"

definition dbl_mul :: "double \<Rightarrow> double \<Rightarrow> double" where
  "dbl_mul a b = dbl_round (fst a * fst b) (snd a + snd b)"

definition dbl_of_uint :: "cl_uint \<Rightarrow> double" where
  "dbl_of_uint w = (unat w, 0)"

definition dbl_of_size :: "size_t \<Rightarrow> double" where
  "dbl_of_size w = dbl_round (unat w) 0"

text \<open>The literal \<^verbatim>\<open>1.2\<close>: the double nearest to \<open>6/5\<close>, \<^verbatim>\<open>0x3FF3333333333333\<close>.\<close>

definition dbl_1_2 :: double where
  "dbl_1_2 = (5404319552844595, - 52)"

text \<open>The integer part of a double.\<close>

definition dbl_trunc :: "double \<Rightarrow> nat" where
  "dbl_trunc d = (if 0 \<le> snd d then fst d * 2 ^ nat (snd d) else fst d div 2 ^ nat (- snd d))"

text \<open>
  The cast \<^verbatim>\<open>(Size) d\<close> drops the fraction; C leaves it undefined when the integer
  part does not fit into 64 bits.
\<close>

definition dbl_to_Size :: "double \<Rightarrow> error + size_t" where
  "dbl_to_Size d =
    (if dbl_trunc d < 2 ^ 64 then Inr (of_nat (dbl_trunc d))
     else Inl (AssertFailure ''double out of the range of Size''))"

subsection \<open>The task factory: \<^verbatim>\<open>gpuscan_create_task\<close>\<close>

text \<open>The fields of \<^verbatim>\<open>GpuScanState\<close> that this development reads or writes.\<close>

record GpuScanState =
  dev_projection :: bool
  gss_proj_tuple_sz :: cl_uint
  gss_proj_extra_sz :: cl_uint
  scan_natts :: size_t             \<comment> \<open>\<^verbatim>\<open>GTS_GET_SCAN_TUPDESC(gss)->natts\<close>\<close>
  kern_params_length :: size_t     \<comment> \<open>\<^verbatim>\<open>gss->gts.kern_params->length\<close>\<close>
  gss_dev_quals :: "expr option"   \<comment> \<open>\<^verbatim>\<open>gss->dev_quals\<close>, an \<^verbatim>\<open>ExprState\<close> or \<^verbatim>\<open>NULL\<close>\<close>
  base_proj :: "TargetEntry list option"
  curr_index :: nat                \<comment> \<open>\<^verbatim>\<open>gss->gts.curr_index\<close>\<close>
  gs_rtstat :: GpuScanRuntimeStat  \<comment> \<open>the shared counters \<^verbatim>\<open>gss->gs_rtstat\<close> points to\<close>

text \<open>
  What the factory calls outside this file: \<^verbatim>\<open>PDS_create_row\<close>, which returns a
  row-format chunk of the requested length or raises, and \<^verbatim>\<open>gpuMemAllocManaged\<close>.
\<close>

record 'tup task_env =
  PDS_create_row :: "size_t \<Rightarrow> size_t \<Rightarrow> error + 'tup pgstrom_data_store"
  gpuMemAllocManaged :: "size_t \<Rightarrow> CUresult"

definition dest_length ::
  "layout \<Rightarrow> GpuScanState \<Rightarrow> 'tup pgstrom_data_store \<Rightarrow> error + size_t" where
  "dest_length ly gss src =
    (let ntuples = dbl_of_uint (kds_nitems src);
         proj_tuple_sz = dbl_of_uint (gss_proj_tuple_sz gss)
     in bindE (if kds_format src = KDS_FORMAT_BLOCK
               then (if 0 < kds_nrows_per_block src
                     then Inr (dbl_mul ntuples (dbl_of_uint (kds_nrows_per_block src)))
                     else Inl (AssertFailure ''src->kds.nrows_per_block > 0''))
               else Inr ntuples) (\<lambda>ntuples.
        bindE (dbl_to_Size (dbl_mul (dbl_of_size 4) ntuples)) (\<lambda>index_sz.
        bindE (dbl_to_Size (dbl_mul (dbl_mul dbl_1_2 proj_tuple_sz) ntuples)) (\<lambda>body_sz.
          Inr (STROMALIGN ly (kds_colmeta_off ly + sizeof_colmeta ly * scan_natts gss)
               + STROMALIGN ly index_sz
               + STROMALIGN ly body_sz)))))"

definition gpuscan_create_task ::
  "layout \<Rightarrow> 'tup task_env \<Rightarrow> GpuScanState \<Rightarrow> 'tup pgstrom_data_store
     \<Rightarrow> error + 'tup GpuScanTask" where
  "gpuscan_create_task ly env gss src =
    bindE (if kds_format src = KDS_FORMAT_ROW \<and> \<not> dev_projection gss
           then Inr (kds_nitems src, None)
           else bindE (dest_length ly gss src) (\<lambda>length.
                bindE (PDS_create_row env (scan_natts gss) length) (\<lambda>dst.
                  Inr (0, Some dst)))) (\<lambda>(nresults, dst).
    let length = STROMALIGN ly (gscan_kparams_off ly)
               + STROMALIGN ly (kern_params_length gss)
               + STROMALIGN ly (resultbuf_results_off ly + 4 * ucast nresults)
    in if gpuMemAllocManaged env length \<noteq> CUDA_SUCCESS
       then Inl (ElogError ''failed on gpuMemAllocManaged'')
       else Inr \<lparr>task_kerror = kern_errorbuf_zero,
                 cpu_fallback = False,
                 with_nvme_strom = (kds_format src = KDS_FORMAT_BLOCK \<and> 0 < nblocks_uncached src),
                 with_projection = False,
                 pds_src = src,
                 pds_dst = dst,
                 kresults = (if dst = None then KERN_GPUSCAN_RESULTBUF else NULL_kresults),
                 kern = \<lparr>kern_kerror = kern_errorbuf_zero,
                         nitems_in = 0, nitems_out = 0, extra_size = 0,
                         kparams_length = kern_params_length gss,
                         kern_kresults = kern_resultbuf_zero\<lparr>nrels := 1, nrooms := nresults\<rparr>\<rparr>\<rparr>)"

subsection \<open>The task executor: \<^verbatim>\<open>gpuscan_process_task\<close>\<close>

text \<open>
  The executor talks to the CUDA driver and to helpers of other files. Each such call
  is logged, in order, and its return code is whatever the driver answers to that call
  after the calls made so far. Sizes that only headers outside this file define
  (\<^verbatim>\<open>KERN_GPUSCAN_DMASEND_LENGTH\<close>, \<^verbatim>\<open>KERN_DATA_STORE_HEAD_LENGTH\<close>) are not part of
  the log.
\<close>

datatype prefetch_region =
    Prefetch_kern_to_device
  | Prefetch_kds_src_to_device
  | Prefetch_kds_dst_head_to_device
  | Prefetch_kds_dst_extra_to_cpu
  | Prefetch_kds_dst_index_to_cpu
  | Prefetch_kresults_to_cpu

datatype cuda_call =
    Call_cuModuleGetFunction string
  | Call_gpuMemAllocIOMap size_t
  | Call_gpuMemAlloc size_t
  | Call_PDS_fillup_blocks
  | Call_cuMemPrefetchAsync prefetch_region
  | Call_cuMemcpyHtoDAsync size_t
  | Call_gpuMemCopyFromSSD
  | Call_gpuOptimalBlockSize
  | Call_cuLaunchKernel string
  | Call_cuEventRecord
  | Call_cuEventSynchronize
  | Call_cuMemcpyDtoHAsync size_t
  | Call_gpuMemFree
  | Call_wnotice string

text \<open>
  \<^verbatim>\<open>m_kds_src\<close>: \<^verbatim>\<open>0UL\<close>, the address of the chunk in managed memory, an i/o mapped
  device buffer, or ordinary device memory.
\<close>

datatype CUdeviceptr = Ptr_NULL | Ptr_pds_src_kds | Ptr_iomap | Ptr_device

text \<open>
  The environment of a worker: the driver; the device program, which reads the task
  and leaves the \<^verbatim>\<open>kern\<close> part (status, counters, result buffer) and the destination
  chunk as it wrote them; and \<^verbatim>\<open>PDS_fillup_blocks\<close>.
\<close>

record 'tup gpu_env =
  driver :: "cuda_call list \<Rightarrow> cuda_call \<Rightarrow> CUresult"
  kern_after :: "string \<Rightarrow> 'tup GpuScanTask \<Rightarrow> kern_gpuscan"
  dst_after :: "string \<Rightarrow> 'tup GpuScanTask \<Rightarrow> 'tup pgstrom_data_store \<Rightarrow> 'tup pgstrom_data_store"
  PDS_fillup_blocks :: "'tup pgstrom_data_store \<Rightarrow> 'tup pgstrom_data_store"

record 'tup worker_state =
  ws_gscan :: "'tup GpuScanTask"
  ws_rtstat :: GpuScanRuntimeStat     \<comment> \<open>\<^verbatim>\<open>gss->gs_rtstat\<close>, shared by the workers\<close>
  ws_calls :: "cuda_call list"
  ws_m_kds_src :: CUdeviceptr

datatype 'a flow = Next 'a | Goto_out_of_resource 'a

definition cuda :: "'tup gpu_env \<Rightarrow> cuda_call \<Rightarrow> 'tup worker_state \<Rightarrow> CUresult \<times> 'tup worker_state" where
  "cuda env c st = (driver env (ws_calls st) c, st\<lparr>ws_calls := ws_calls st @ [c]\<rparr>)"

text \<open>A call followed by \<^verbatim>\<open>if (rc != CUDA_SUCCESS) werror(...)\<close>.\<close>

definition checked ::
  "'tup gpu_env \<Rightarrow> cuda_call \<Rightarrow> string \<Rightarrow> 'tup worker_state \<Rightarrow> error + 'tup worker_state" where
  "checked env c msg st =
    (case cuda env c st of (rc, st') \<Rightarrow>
       if rc \<noteq> CUDA_SUCCESS then Inl (WError msg) else Inr st')"

text \<open>A helper that returns nothing.\<close>

definition effect :: "cuda_call \<Rightarrow> 'tup worker_state \<Rightarrow> 'tup worker_state" where
  "effect c st = st\<lparr>ws_calls := ws_calls st @ [c]\<rparr>"

text \<open>Lookup of the GPU kernel function.\<close>

definition kern_fname_of :: "kds_format \<Rightarrow> error + string" where
  "kern_fname_of format =
    (case format of
       KDS_FORMAT_ROW \<Rightarrow> Inr ''gpuscan_exec_quals_row''
     | KDS_FORMAT_BLOCK \<Rightarrow> Inr ''gpuscan_exec_quals_block''
     | KDS_FORMAT_COLUMN \<Rightarrow> Inr ''gpuscan_exec_quals_column''
     | KDS_FORMAT_UNKNOWN \<Rightarrow> Inl (WError ''GpuScan: unknown PDS format''))"

definition process_lookup ::
  "'tup gpu_env \<Rightarrow> 'tup worker_state \<Rightarrow> error + (string \<times> 'tup worker_state)" where
  "process_lookup env st =
    bindE (kern_fname_of (kds_format (pds_src (ws_gscan st)))) (\<lambda>kern_fname.
    bindE (checked env (Call_cuModuleGetFunction kern_fname)
             ''failed on cuModuleGetFunction'' st) (\<lambda>st.
      Inr (kern_fname, st)))"

text \<open>Allocation of device memory for the source chunk.\<close>

definition process_alloc ::
  "'tup gpu_env \<Rightarrow> 'tup worker_state \<Rightarrow> error + 'tup worker_state flow" where
  "process_alloc env st =
    (if kds_format (pds_src (ws_gscan st)) \<noteq> KDS_FORMAT_BLOCK
     then Inr (Next (st\<lparr>ws_m_kds_src := Ptr_pds_src_kds\<rparr>))
     else
       bindE (if with_nvme_strom (ws_gscan st)
              then (case cuda env (Call_gpuMemAllocIOMap (kds_length (pds_src (ws_gscan st)))) st of
                      (rc, st) \<Rightarrow>
                        if rc = CUDA_ERROR_OUT_OF_MEMORY
                        then (let st = effect Call_PDS_fillup_blocks st
                              in Inr (st\<lparr>ws_gscan := (ws_gscan st)
                                      \<lparr>pds_src := PDS_fillup_blocks env (pds_src (ws_gscan st)),
                                       with_nvme_strom := False\<rparr>\<rparr>))
                        else if rc \<noteq> CUDA_SUCCESS
                        then Inl (WError ''failed on gpuMemAllocIOMap'')
                        else Inr (st\<lparr>ws_m_kds_src := Ptr_iomap\<rparr>))
              else Inr st) (\<lambda>st.
       if ws_m_kds_src st = Ptr_NULL
       then (case cuda env (Call_gpuMemAlloc (kds_length (pds_src (ws_gscan st)))) st of
               (rc, st) \<Rightarrow>
                 if rc = CUDA_ERROR_OUT_OF_MEMORY then Inr (Goto_out_of_resource st)
                 else if rc \<noteq> CUDA_SUCCESS then Inl (WError ''failed on gpuMemAlloc'')
                 else Inr (Next (st\<lparr>ws_m_kds_src := Ptr_device\<rparr>)))
       else Inr (Next st)))"

text \<open>The series of requests up to the point of synchronization.\<close>

definition process_enqueue ::
  "'tup gpu_env \<Rightarrow> string \<Rightarrow> 'tup worker_state \<Rightarrow> error + 'tup worker_state" where
  "process_enqueue env kern_fname st =
    bindE (checked env (Call_cuMemPrefetchAsync Prefetch_kern_to_device)
             ''failed on cuMemPrefetchAsync'' st) (\<lambda>st.
    bindE (if kds_format (pds_src (ws_gscan st)) \<noteq> KDS_FORMAT_BLOCK
           then checked env (Call_cuMemPrefetchAsync Prefetch_kds_src_to_device)
                  ''failed on cuMemPrefetchAsync'' st
           else if \<not> with_nvme_strom (ws_gscan st)
           then checked env (Call_cuMemcpyHtoDAsync (kds_length (pds_src (ws_gscan st))))
                  ''failed on cuMemcpyHtoDAsync'' st
           else checked env Call_gpuMemCopyFromSSD ''failed on gpuMemCopyFromSSD'' st) (\<lambda>st.
    bindE (if pds_dst (ws_gscan st) \<noteq> None
           then checked env (Call_cuMemPrefetchAsync Prefetch_kds_dst_head_to_device)
                  ''failed on cuMemPrefetchAsync'' st
           else Inr st) (\<lambda>st.
    bindE (checked env (Call_cuLaunchKernel kern_fname) ''failed on cuLaunchKernel''
             (effect Call_gpuOptimalBlockSize st)) (\<lambda>st.
    bindE (checked env Call_cuEventRecord ''failed on cuEventRecord'' st) (\<lambda>st.
    bindE (checked env Call_cuEventSynchronize ''failed on cuEventSynchronize'' st) (\<lambda>st.
      Inr (st\<lparr>ws_gscan := (ws_gscan st)
              \<lparr>kern := kern_after env kern_fname (ws_gscan st),
               pds_dst := map_option (dst_after env kern_fname (ws_gscan st))
                            (pds_dst (ws_gscan st))\<rparr>\<rparr>)))))))"

text \<open>
  The write-back of the blocks that are not in host memory, for the fallback. The
  condition reads \<^verbatim>\<open>pds_dst->nblocks_uncached\<close>; a \<^verbatim>\<open>NULL\<close> destination chunk there
  is a crash.
\<close>

definition process_writeback ::
  "layout \<Rightarrow> 'tup gpu_env \<Rightarrow> 'tup worker_state \<Rightarrow> error + 'tup worker_state" where
  "process_writeback ly env st =
    (if with_nvme_strom (ws_gscan st)
     then (case pds_dst (ws_gscan st) of
             None \<Rightarrow> Inl (AssertFailure ''pds_dst is NULL'')
           | Some dst \<Rightarrow>
               if 0 < nblocks_uncached dst
               then bindE (checked env
                             (Call_cuMemcpyDtoHAsync
                                (ucast (nblocks_uncached (pds_src (ws_gscan st)) * BLCKSZ ly)))
                             ''failed on cuMemcpyDtoHAsync'' st) (\<lambda>st.
                    bindE (checked env Call_cuEventRecord ''failed on cuEventRecord'' st) (\<lambda>st.
                    checked env Call_cuEventSynchronize ''failed on cuEventSynchronize'' st))
               else Inr st)
     else Inr st)"

text \<open>Check of the GPU kernel status and of the counters.\<close>

definition process_status ::
  "layout \<Rightarrow> 'tup gpu_env \<Rightarrow> bool \<Rightarrow> 'tup worker_state \<Rightarrow> error + 'tup worker_state flow" where
  "process_status ly env pgstrom_cpu_fallback_enabled st =
    (let nitems_in = (ucast (nitems_in (kern (ws_gscan st))) :: size_t);
         nitems_out = (ucast (nitems_out (kern (ws_gscan st))) :: size_t);
         st = st\<lparr>ws_gscan := (ws_gscan st)\<lparr>task_kerror := kern_kerror (kern (ws_gscan st))\<rparr>\<rparr>
     in if errcode (task_kerror (ws_gscan st)) = StromError_Success
        then Inr (Next (st\<lparr>ws_rtstat := (ws_rtstat st)
                    \<lparr>nitems_filtered := nitems_filtered (ws_rtstat st) + (nitems_in - nitems_out)\<rparr>\<rparr>))
        else if pgstrom_cpu_fallback_enabled \<and>
                (errcode (task_kerror (ws_gscan st)) = StromError_CpuReCheck \<or>
                 errcode (kern_kerror (kern (ws_gscan st))) = StromError_DataStoreNoSpace)
        then bindE (process_writeback ly env
                      (st\<lparr>ws_gscan := (ws_gscan st)
                          \<lparr>task_kerror := kern_errorbuf_zero, cpu_fallback := True\<rparr>\<rparr>)) (\<lambda>st.
               Inr (Goto_out_of_resource st))
        else Inr (Goto_out_of_resource st))"

text \<open>Staging of the results back to the host.\<close>

definition process_results :: "'tup gpu_env \<Rightarrow> 'tup worker_state \<Rightarrow> error + 'tup worker_state" where
  "process_results env st =
    (if pds_dst (ws_gscan st) \<noteq> None
     then (if 0 < nitems_out (kern (ws_gscan st))
           then (if \<not> 0 < extra_size (kern (ws_gscan st))
                 then Inl (AssertFailure ''extra_size > 0'')
                 else bindE (checked env (Call_cuMemPrefetchAsync Prefetch_kds_dst_extra_to_cpu)
                               ''failed on cuMemPrefetchAsync'' st) (\<lambda>st.
                      checked env (Call_cuMemPrefetchAsync Prefetch_kds_dst_index_to_cpu)
                        ''failed on cuMemPrefetchAsync'' st))
           else Inr st)
     else (if extra_size (kern (ws_gscan st)) \<noteq> 0
           then Inl (AssertFailure ''extra_size == 0'')
           else checked env (Call_cuMemPrefetchAsync Prefetch_kresults_to_cpu)
                  ''failed on cuMemPrefetchAsync'' st))"

text \<open>The label \<^verbatim>\<open>out_of_resource\<close>.\<close>

definition out_of_resource :: "int \<Rightarrow> 'tup worker_state \<Rightarrow> int \<times> 'tup worker_state" where
  "out_of_resource retval st =
    (let st = (if 0 < retval then effect (Call_wnotice ''GpuScan: out of resource'') st else st);
         st = (if kds_format (pds_src (ws_gscan st)) = KDS_FORMAT_BLOCK
               then effect Call_gpuMemFree st else st)
     in (retval, st))"

definition gpuscan_process_task ::
  "layout \<Rightarrow> 'tup gpu_env \<Rightarrow> bool \<Rightarrow> GpuScanRuntimeStat \<Rightarrow> 'tup GpuScanTask
     \<Rightarrow> error + (int \<times> 'tup worker_state)" where
  "gpuscan_process_task ly env pgstrom_cpu_fallback_enabled rtstat gscan =
    (let st = \<lparr>ws_gscan = gscan, ws_rtstat = rtstat, ws_calls = [], ws_m_kds_src = Ptr_NULL\<rparr>
     in bindE (process_lookup env st) (\<lambda>(kern_fname, st).
        bindE (process_alloc env st) (\<lambda>fl.
          case fl of
            Goto_out_of_resource st \<Rightarrow> Inr (out_of_resource 100001 st)
          | Next st \<Rightarrow>
              bindE (process_enqueue env kern_fname st) (\<lambda>st.
              bindE (process_status ly env pgstrom_cpu_fallback_enabled st) (\<lambda>fl.
                case fl of
                  Goto_out_of_resource st \<Rightarrow> Inr (out_of_resource 0 st)
                | Next st \<Rightarrow>
                    bindE (process_results env st) (\<lambda>st.
                      Inr (out_of_resource 0 st)))))))"

subsection \<open>The host executor and \<^verbatim>\<open>ExecInitGpuScan\<close>\<close>

text \<open>
  The expression evaluator of the host is PostgreSQL's. The model keeps what the
  fallback relies on: a \<^verbatim>\<open>Var\<close> is read from the scan tuple of the expression
  context (whatever its \<^verbatim>\<open>varno\<close>, there being no inner or outer tuple in a scan), any
  other node is evaluated from the values of its children, a qualifier passes when its
  value is true, and a projection evaluates its target entries in order. What a tag
  means, how a stored tuple is deformed, and how an offset of the result buffer is
  turned into a tuple (\<^verbatim>\<open>KDS_ROW_REF_HTUP\<close>, \<^verbatim>\<open>KDS_BLOCK_REF_HTUP\<close>) are parameters.
\<close>

datatype ('v, 'tup) TupleTableSlot = StoredTuple 'tup | VirtualTuple "'v list"

record ('v, 'tup) host_executor =
  heap_getattr :: "'tup \<Rightarrow> int \<Rightarrow> 'v"
  eval_node :: "string \<Rightarrow> 'v list \<Rightarrow> 'v"
  null_datum :: 'v
  datum_is_true :: "'v \<Rightarrow> bool"
  KDS_REF_HTUP :: "'tup pgstrom_data_store \<Rightarrow> cl_uint \<Rightarrow> 'tup"

definition slot_getattr :: "('v, 'tup) host_executor \<Rightarrow> ('v, 'tup) TupleTableSlot \<Rightarrow> int \<Rightarrow> 'v" where
  "slot_getattr h slot attnum =
    (case slot of
       StoredTuple tup \<Rightarrow> heap_getattr h tup attnum
     | VirtualTuple vs \<Rightarrow>
         if 1 \<le> attnum \<and> attnum \<le> int (length vs) then vs ! nat (attnum - 1)
         else null_datum h)"

fun ExecEvalExpr :: "('v, 'tup) host_executor \<Rightarrow> ('v, 'tup) TupleTableSlot \<Rightarrow> expr \<Rightarrow> 'v" where
  "ExecEvalExpr h scantuple NullExpr = null_datum h"
| "ExecEvalExpr h scantuple (Var varno varattno vartype) = slot_getattr h scantuple varattno"
| "ExecEvalExpr h scantuple (Node tag args) = eval_node h tag (map (ExecEvalExpr h scantuple) args)"

definition ExecQual :: "('v, 'tup) host_executor \<Rightarrow> expr \<Rightarrow> ('v, 'tup) TupleTableSlot \<Rightarrow> bool" where
  "ExecQual h state scantuple = datum_is_true h (ExecEvalExpr h scantuple state)"

definition ExecProject ::
  "('v, 'tup) host_executor \<Rightarrow> TargetEntry list \<Rightarrow> ('v, 'tup) TupleTableSlot
     \<Rightarrow> ('v, 'tup) TupleTableSlot" where
  "ExecProject h proj scantuple =
     VirtualTuple (map (\<lambda>tle. ExecEvalExpr h scantuple (tle_expr tle)) proj)"

definition make_ands_explicit :: "expr list \<Rightarrow> expr" where
  "make_ands_explicit andclauses =
    (case andclauses of
       [] \<Rightarrow> Node ''Const:true'' []
     | [clause] \<Rightarrow> clause
     | _ \<Rightarrow> Node ''BoolExpr:AND'' andclauses)"

definition ExecInitExpr :: "expr \<Rightarrow> expr option" where
  "ExecInitExpr node = (if node = NullExpr then None else Some node)"

text \<open>
  \<^verbatim>\<open>ExecInitGpuScan\<close>, as far as it sets up the fields above (PostgreSQL 10 and
  later). The number of attributes of the relation, the parameter buffer and the
  shared counters come from its callees and are arguments here.
\<close>

definition ExecInitGpuScan ::
  "size_t \<Rightarrow> size_t \<Rightarrow> GpuScanRuntimeStat \<Rightarrow> expr CustomScan \<Rightarrow> error + GpuScanState" where
  "ExecInitGpuScan rel_natts params_length rtstat cscan =
    bindE (deform_gpuscan_info cscan) (\<lambda>gs_info.
    bindE (fixup_varnode_list (dev_quals gs_info) (custom_scan_tlist cscan)) (\<lambda>dev_quals_raw.
      let dev_quals_expr = make_ands_explicit dev_quals_raw;
          dev_tlist = takeWhile (\<lambda>tle. \<not> resjunk tle) (custom_scan_tlist cscan)
      in Inr \<lparr>dev_projection = (custom_scan_tlist cscan \<noteq> []),
              gss_proj_tuple_sz = proj_tuple_sz gs_info,
              gss_proj_extra_sz = proj_extra_sz gs_info,
              scan_natts = (if custom_scan_tlist cscan \<noteq> []
                            then of_nat (length (filter (\<lambda>tle. \<not> resjunk tle) (custom_scan_tlist cscan)))
                            else rel_natts),
              kern_params_length = params_length,
              gss_dev_quals = ExecInitExpr dev_quals_expr,
              base_proj = (if custom_scan_tlist cscan \<noteq> [] then Some dev_tlist else None),
              curr_index = 0,
              gs_rtstat = rtstat\<rparr>))"

subsection \<open>Result tuples: \<^verbatim>\<open>gpuscan_next_tuple\<close> and the CPU fallback\<close>

text \<open>
  Modelled from the spec: \<^verbatim>\<open>PDS_fetch_tuple\<close> (\<^verbatim>\<open>datastore.c\<close>, not under src/)
  hands out the tuples of a chunk one at a time, in order, counting in
  \<^verbatim>\<open>gts->curr_index\<close>, until the chunk is exhausted.
\<close>

definition PDS_fetch_tuple ::
  "'tup pgstrom_data_store \<Rightarrow> GpuScanState \<Rightarrow> ('tup \<times> GpuScanState) option" where
  "PDS_fetch_tuple pds gss =
    (if curr_index gss < length (pds_tuples pds)
     then Some (pds_tuples pds ! curr_index gss, gss\<lparr>curr_index := curr_index gss + 1\<rparr>)
     else None)"

function gpuscan_next_tuple_fallback ::
  "('v, 'tup) host_executor \<Rightarrow> GpuScanState \<Rightarrow> 'tup GpuScanTask
     \<Rightarrow> ('v, 'tup) TupleTableSlot option \<times> GpuScanState" where
  "gpuscan_next_tuple_fallback h gss gscan =
    (case PDS_fetch_tuple (pds_src gscan) gss of
       None \<Rightarrow> (None, gss)
     | Some (tup, gss) \<Rightarrow>
         if (case gss_dev_quals gss of
               None \<Rightarrow> False
             | Some quals \<Rightarrow> \<not> ExecQual h quals (StoredTuple tup))
         then gpuscan_next_tuple_fallback h
                (gss\<lparr>gs_rtstat := (gs_rtstat gss)
                       \<lparr>nitems_filtered := nitems_filtered (gs_rtstat gss) + 1\<rparr>\<rparr>) gscan
         else (Some (case base_proj gss of
                       None \<Rightarrow> StoredTuple tup
                     | Some proj \<Rightarrow> ExecProject h proj (StoredTuple tup)), gss))"
  by pat_completeness auto
termination
  by (relation "measure (\<lambda>(h, gss, gscan). length (pds_tuples (pds_src gscan)) - curr_index gss)")
    (auto simp: PDS_fetch_tuple_def split: if_splits)

declare gpuscan_next_tuple_fallback.simps [simp del]

definition gpuscan_next_tuple ::
  "('v, 'tup) host_executor \<Rightarrow> GpuScanState \<Rightarrow> 'tup GpuScanTask
     \<Rightarrow> error + (('v, 'tup) TupleTableSlot option \<times> GpuScanState)" where
  "gpuscan_next_tuple h gss gscan =
    (if cpu_fallback gscan then Inr (gpuscan_next_tuple_fallback h gss gscan)
     else case pds_dst gscan of
       Some dst \<Rightarrow>
         (case PDS_fetch_tuple dst gss of
            None \<Rightarrow> Inr (None, gss)
          | Some (tup, gss) \<Rightarrow> Inr (Some (StoredTuple tup), gss))
     | None \<Rightarrow>
         (case kresults gscan of
            NULL_kresults \<Rightarrow> Inl (AssertFailure ''kresults is NULL'')
          | KERN_GPUSCAN_RESULTBUF \<Rightarrow>
              if all_visible (kern_kresults (kern gscan))
              then Inl (AssertFailure ''!kresults->all_visible'')
              else if curr_index gss < unat (nitems (kern_kresults (kern gscan)))
              then (if curr_index gss < length (results (kern_kresults (kern gscan)))
                    then Inr (Some (StoredTuple
                                (KDS_REF_HTUP h (pds_src gscan)
                                   (results (kern_kresults (kern gscan)) ! curr_index gss))),
                              gss\<lparr>curr_index := curr_index gss + 1\<rparr>)
                    else Inl (AssertFailure ''kresults->results[] out of range''))
              else Inr (None, gss)))"

subsection \<open>The pull protocol and the scan loop\<close>

text \<open>
  Modelled from the spec: the task framework (\<^verbatim>\<open>gputasks.c\<close>, not under src/). A task
  is submitted once to the executor; a task whose error code is still set after that
  fails the query; otherwise its results are drained through \<^verbatim>\<open>gpuscan_next_tuple\<close>,
  one tuple per call and from index 0, until a call returns no tuple; then the next
  task is taken. A task that the executor hands back for lack of device memory is not
  run again here: the model stops with an error.
\<close>

definition task_ntuples :: "'tup GpuScanTask \<Rightarrow> nat" where
  "task_ntuples gscan =
    (if cpu_fallback gscan then length (pds_tuples (pds_src gscan))
     else case pds_dst gscan of
            Some dst \<Rightarrow> length (pds_tuples dst)
          | None \<Rightarrow> unat (nitems (kern_kresults (kern gscan))))"

function drain_task ::
  "('v, 'tup) host_executor \<Rightarrow> GpuScanState \<Rightarrow> 'tup GpuScanTask
     \<Rightarrow> error + (('v, 'tup) TupleTableSlot list \<times> GpuScanState)" where
  "drain_task h gss gscan =
    (case gpuscan_next_tuple h gss gscan of
       Inl e \<Rightarrow> Inl e
     | Inr (None, gss) \<Rightarrow> Inr ([], gss)
     | Inr (Some slot, gss) \<Rightarrow>
         bindE (drain_task h gss gscan) (\<lambda>(slots, gss). Inr (slot # slots, gss)))"
  by pat_completeness auto
termination
proof (relation "measure (\<lambda>(h, gss, gscan). task_ntuples gscan - curr_index gss)")
  show "wf (measure (\<lambda>(h :: ('v, 'tup) host_executor, gss, gscan :: 'tup GpuScanTask).
      task_ntuples gscan - curr_index gss))"
    by simp
next
  fix h :: "('v, 'tup) host_executor" and gss gss' :: GpuScanState
    and gscan :: "'tup GpuScanTask" and x :: "('v, 'tup) TupleTableSlot option \<times> GpuScanState"
    and y :: "('v, 'tup) TupleTableSlot option" and slot :: "('v, 'tup) TupleTableSlot"
  assume a: "gpuscan_next_tuple h gss gscan = Inr x" "(y, gss') = x" "y = Some slot"
  have fb: "gpuscan_next_tuple_fallback h g gscan = (Some s, g') \<Longrightarrow>
      curr_index g < curr_index g' \<and> curr_index g' \<le> length (pds_tuples (pds_src gscan))"
    for g g' s
  proof (induction h g gscan rule: gpuscan_next_tuple_fallback.induct)
    case (1 h g gscan)
    show ?case
    proof (cases "PDS_fetch_tuple (pds_src gscan) g")
      case None
      with "1.prems" show ?thesis by (simp add: gpuscan_next_tuple_fallback.simps [of h g gscan])
    next
      case (Some p)
      obtain tup g1 where p: "p = (tup, g1)" by (cases p)
      from Some p have g1: "curr_index g1 = curr_index g + 1"
        "curr_index g1 \<le> length (pds_tuples (pds_src gscan))"
        by (auto simp: PDS_fetch_tuple_def split: if_splits)
      show ?thesis
      proof (cases "case gss_dev_quals g1 of None \<Rightarrow> False
                    | Some quals \<Rightarrow> \<not> ExecQual h quals (StoredTuple tup)")
        case True
        with Some p "1.prems"
        have "gpuscan_next_tuple_fallback h
                (g1\<lparr>gs_rtstat := (gs_rtstat g1)
                       \<lparr>nitems_filtered := nitems_filtered (gs_rtstat g1) + 1\<rparr>\<rparr>) gscan = (Some s, g')"
          by (simp add: gpuscan_next_tuple_fallback.simps [of h g gscan])
        from "1.IH" [OF Some p [symmetric] True this] g1 show ?thesis by simp
      next
        case False
        with Some p "1.prems" have "g' = g1"
          by (simp add: gpuscan_next_tuple_fallback.simps [of h g gscan])
        with g1 show ?thesis by simp
      qed
    qed
  qed
  from a have "gpuscan_next_tuple h gss gscan = Inr (Some slot, gss')" by simp
  then have "curr_index gss < curr_index gss' \<and> curr_index gss' \<le> task_ntuples gscan"
    using fb [of gss slot gss']
    by (auto simp: gpuscan_next_tuple_def task_ntuples_def PDS_fetch_tuple_def
        split: if_splits option.splits kresults_ptr.splits)
  then show "((h, gss', gscan), (h, gss, gscan))
      \<in> measure (\<lambda>(h, gss, gscan). task_ntuples gscan - curr_index gss)"
    by auto
qed

definition complete_task ::
  "layout \<Rightarrow> 'tup gpu_env \<Rightarrow> bool \<Rightarrow> ('v, 'tup) host_executor \<Rightarrow> GpuScanState
     \<Rightarrow> 'tup GpuScanTask
     \<Rightarrow> error + (('tup GpuScanTask \<times> ('v, 'tup) TupleTableSlot list) \<times> GpuScanState)" where
  "complete_task ly env fallback_enabled h gss gscan =
    bindE (gpuscan_process_task ly env fallback_enabled (gs_rtstat gss) gscan) (\<lambda>(retval, st).
      if retval \<noteq> 0 then Inl (ElogError ''GpuScan: out of resource'')
      else if errcode (task_kerror (ws_gscan st)) \<noteq> StromError_Success
      then Inl (ElogError ''GPU kernel error'')
      else bindE (drain_task h (gss\<lparr>gs_rtstat := ws_rtstat st, curr_index := 0\<rparr>) (ws_gscan st))
             (\<lambda>(slots, gss). Inr ((ws_gscan st, slots), gss)))"

fun scan_tasks ::
  "layout \<Rightarrow> 'tup gpu_env \<Rightarrow> bool \<Rightarrow> ('v, 'tup) host_executor \<Rightarrow> GpuScanState
     \<Rightarrow> 'tup GpuScanTask list
     \<Rightarrow> error + (('tup GpuScanTask \<times> ('v, 'tup) TupleTableSlot list) list \<times> GpuScanState)" where
  "scan_tasks ly env fallback_enabled h gss [] = Inr ([], gss)"
| "scan_tasks ly env fallback_enabled h gss (gscan # tasks) =
    bindE (complete_task ly env fallback_enabled h gss gscan) (\<lambda>(done, gss).
    bindE (scan_tasks ly env fallback_enabled h gss tasks) (\<lambda>(dones, gss).
      Inr (done # dones, gss)))"

text \<open>
  The row estimate \<^verbatim>\<open>ntuples\<close> of \<^verbatim>\<open>gpuscan_create_task\<close>, without its assertion,
  and the capacity as the specification words it:
  \<open>\<lceil>1.2 \<times> average-projected-tuple-size \<times> expected-row-count\<rceil>\<close>.
\<close>

definition expected_rows :: "'tup pgstrom_data_store \<Rightarrow> double" where
  "expected_rows src =
    (if kds_format src = KDS_FORMAT_BLOCK
     then dbl_mul (dbl_of_uint (kds_nitems src)) (dbl_of_uint (kds_nrows_per_block src))
     else dbl_of_uint (kds_nitems src))"

definition spec_capacity :: "nat \<Rightarrow> nat \<Rightarrow> int" where
  "spec_capacity tuple_sz rows = \<lceil>(12 / 10 :: rat) * of_nat tuple_sz * of_nat rows\<rceil>"

subsection \<open>The code generator for the qualifier: \<^verbatim>\<open>codegen_gpuscan_quals\<close>\<close>

text \<open>
  The generator appends formatted lines to two buffers, \<^verbatim>\<open>tfunc\<close> for the function
  on tuples and \<^verbatim>\<open>cfunc\<close> for the function on columns, and at the end prints both
  into a fixed frame. A buffer is the list of the lines appended to it; \<open>render\<close>
  gives each line the text of its format string.
\<close>

record var_ref =
  varno :: nat
  varattno :: int
  vartype :: nat

record devtype_info =
  type_name :: string

record codegen_context =
  used_vars :: "var_ref list"
  var_label :: string
  param_decls :: string   \<comment> \<open>what \<^verbatim>\<open>pgstrom_codegen_param_declarations\<close> prints for the context\<close>

text \<open>
  The walker of the expression tree and the table of device types belong to other
  files; they are parameters. The walker returns the code of the expression and the
  context with the variables it met.
\<close>

record codegen_env =
  pgstrom_codegen_expression :: "expr \<Rightarrow> codegen_context \<Rightarrow> error + (string \<times> codegen_context)"
  pgstrom_devtype_lookup :: "nat \<Rightarrow> devtype_info option"

datatype kstmt =
    K_text string
  | K_decl string string nat
  | K_blank
  | K_seek_tuple nat
  | K_seek_column nat
  | K_datum_ref string nat string
  | K_assert_htup
  | K_extract_begin
  | K_extract_next
  | K_extract_end

definition digit_char :: "nat \<Rightarrow> char" where
  "digit_char d = char_of (48 + d)"

function show_nat :: "nat \<Rightarrow> string" where
  "show_nat n = (if n < 10 then [digit_char n] else show_nat (n div 10) @ [digit_char (n mod 10)])"
  by pat_completeness auto
termination
  by (relation "measure id") auto

declare show_nat.simps [simp del]

definition line :: "string \<Rightarrow> string" where
  "line s = s @ [CHR 0x0A]"

fun render1 :: "kstmt \<Rightarrow> string" where
  "render1 (K_text s) = s"
| "render1 (K_decl tname label attno) =
     line (''  pg_'' @ tname @ ''_t '' @ label @ ''_'' @ show_nat attno @ '';'')"
| "render1 K_blank = line []"
| "render1 (K_seek_tuple k) =
     line (''  addr = kern_get_datum_tuple(kds->colmeta,htup,'' @ show_nat k @ '');'')"
| "render1 (K_seek_column k) =
     line (''  addr = kern_get_datum_column(kds,'' @ show_nat k @ '',row_index);'')"
| "render1 (K_datum_ref label attno tname) =
     line (''  '' @ label @ ''_'' @ show_nat attno @ '' = pg_'' @ tname @ ''_datum_ref(kcxt,addr);'')"
| "render1 K_assert_htup = line ''  assert(htup != NULL);''"
| "render1 K_extract_begin = line ''  EXTRACT_HEAP_TUPLE_BEGIN(addr, kds, htup);''"
| "render1 K_extract_next = line ''  EXTRACT_HEAP_TUPLE_NEXT(addr);''"
| "render1 K_extract_end = line ''  EXTRACT_HEAP_TUPLE_END();''"

definition render :: "kstmt list \<Rightarrow> string" where
  "render ks = concat (map render1 ks)"

fun mapE :: "('a \<Rightarrow> error + 'b) \<Rightarrow> 'a list \<Rightarrow> error + 'b list" where
  "mapE f [] = Inr []"
| "mapE f (x # xs) = bindE (f x) (\<lambda>y. bindE (mapE f xs) (\<lambda>ys. Inr (y # ys)))"

text \<open>The sanity check of \<^verbatim>\<open>used_vars\<close>.\<close>

definition check_used_var :: "codegen_env \<Rightarrow> nat \<Rightarrow> var_ref \<Rightarrow> error + unit" where
  "check_used_var env scanrelid var =
    (if varno var \<noteq> scanrelid then Inl (ElogError ''unexpected var-node reference'')
     else if varattno var = 0
     then Inl (ElogError ''cannot have whole-row reference on GPU expression'')
     else if varattno var < 0
     then Inl (ElogError ''cannot have system column on GPU expression'')
     else if pgstrom_devtype_lookup env (vartype var) = None
     then Inl (ElogError ''failed to lookup device type'')
     else Inr ())"

text \<open>\<^verbatim>\<open>dtype->type_name\<close> after a lookup that is not checked again.\<close>

definition devtype_name :: "codegen_env \<Rightarrow> nat \<Rightarrow> error + string" where
  "devtype_name env typeoid =
    (case pgstrom_devtype_lookup env typeoid of
       None \<Rightarrow> Inl (AssertFailure ''dtype is NULL'')
     | Some dtype \<Rightarrow> Inr (type_name dtype))"

text \<open>
  The declarations when at most one variable is used: the variable is loaded by a
  direct reference to its attribute.
\<close>

definition vref_single ::
  "codegen_env \<Rightarrow> codegen_context \<Rightarrow> var_ref \<Rightarrow> error + (kstmt list \<times> kstmt list)" where
  "vref_single env context var =
    (if varattno var \<le> 0 then Inl (ElogError ''Bug? system column appeared in expression'')
     else bindE (devtype_name env (vartype var)) (\<lambda>tname.
       Inr ([K_decl tname (var_label context) (nat (varattno var)),
             K_blank,
             K_seek_tuple (nat (varattno var - 1)),
             K_datum_ref (var_label context) (nat (varattno var)) tname],
            [K_decl tname (var_label context) (nat (varattno var)),
             K_blank,
             K_seek_column (nat (varattno var - 1)),
             K_datum_ref (var_label context) (nat (varattno var)) tname])))"

text \<open>The declarations of the other branch, collected in \<^verbatim>\<open>temp\<close>.\<close>

definition vref_decl :: "codegen_env \<Rightarrow> codegen_context \<Rightarrow> var_ref \<Rightarrow> error + kstmt" where
  "vref_decl env context var =
    (if \<not> 0 < varattno var then Inl (AssertFailure ''var->varattno > 0'')
     else bindE (devtype_name env (vartype var)) (\<lambda>tname.
       Inr (K_decl tname (var_label context) (nat (varattno var)))))"

text \<open>
  One round of the loop over the attribute numbers: the first variable of
  \<^verbatim>\<open>used_vars\<close> with this attribute number, if any, is loaded; then, except after
  the last attribute, the tuple function steps to the next attribute.
\<close>

definition vref_attr ::
  "codegen_env \<Rightarrow> codegen_context \<Rightarrow> nat \<Rightarrow> nat \<Rightarrow> error + (kstmt list \<times> kstmt list)" where
  "vref_attr env context varattno_max anum =
    bindE (case find (\<lambda>var. varattno var = int anum) (used_vars context) of
             None \<Rightarrow> Inr ([], [])
           | Some var \<Rightarrow>
               bindE (devtype_name env (vartype var)) (\<lambda>tname.
                 Inr ([K_datum_ref (var_label context) (nat (varattno var)) tname],
                      [K_seek_column (nat (varattno var - 1)),
                       K_datum_ref (var_label context) (nat (varattno var)) tname])))
      (\<lambda>(t, c). Inr (t @ (if anum < varattno_max then [K_extract_next] else []), c))"

text \<open>
  \<^verbatim>\<open>varattno_max\<close> and the loop counter are \<^verbatim>\<open>AttrNumber\<close>, 16 bits and signed; a
  maximum of 32767 would never end the loop, which the model reports.
\<close>

definition vref_multi ::
  "codegen_env \<Rightarrow> codegen_context \<Rightarrow> error + (kstmt list \<times> kstmt list)" where
  "vref_multi env context =
    bindE (mapE (vref_decl env context) (used_vars context)) (\<lambda>temp.
      let varattno_max = nat (fold (\<lambda>var m. max m (varattno var)) (used_vars context) 0)
      in if 32767 \<le> varattno_max then Inl (AssertFailure ''AttrNumber overflow'')
         else bindE (mapE (vref_attr env context varattno_max) [1..<Suc varattno_max]) (\<lambda>rounds.
           Inr (temp @ [K_assert_htup, K_extract_begin] @ concat (map fst rounds) @ [K_extract_end],
                temp @ concat (map snd rounds))))"

text \<open>Everything up to the label \<^verbatim>\<open>output\<close>: the two buffers and \<^verbatim>\<open>expr_code\<close>.\<close>

definition gpuscan_quals_body ::
  "codegen_env \<Rightarrow> codegen_context \<Rightarrow> nat \<Rightarrow> expr
     \<Rightarrow> error + (kstmt list \<times> kstmt list \<times> string option \<times> codegen_context)" where
  "gpuscan_quals_body env context scanrelid dev_quals_expr =
    (if dev_quals_expr = NullExpr then Inr ([], [], None, context)
     else
       bindE (pgstrom_codegen_expression env dev_quals_expr context) (\<lambda>(expr_code, context).
       bindE (mapE (check_used_var env scanrelid) (used_vars context)) (\<lambda>_.
       bindE (if length (used_vars context) \<le> 1
              then bindE (mapE (vref_single env context) (used_vars context)) (\<lambda>vs.
                     Inr (concat (map fst vs), concat (map snd vs)))
              else vref_multi env context) (\<lambda>(tfunc, cfunc).
         Inr (K_text (param_decls context) # tfunc,
              K_text (param_decls context) # cfunc,
              Some expr_code, context)))))"

definition codegen_gpuscan_quals ::
  "codegen_env \<Rightarrow> string \<Rightarrow> codegen_context \<Rightarrow> nat \<Rightarrow> expr
     \<Rightarrow> error + (string \<times> codegen_context)" where
  "codegen_gpuscan_quals env kern_buf context scanrelid dev_quals_expr =
    bindE (gpuscan_quals_body env context scanrelid dev_quals_expr)
      (\<lambda>(tfunc, cfunc, expr_code, context).
        let ret = (case expr_code of None \<Rightarrow> ''true'' | Some code \<Rightarrow> ''EVAL('' @ code @ '')'')
        in Inr (kern_buf @ concat
             [line ''STATIC_FUNCTION(cl_bool)'',
              line ''gpuscan_quals_eval(kern_context *kcxt,'',
              line ''                   kern_data_store *kds,'',
              line ''                   ItemPointerData *t_self,'',
              line ''                   HeapTupleHeaderData *htup)'',
              line ''{'',
              line ''  void *addr __attribute__((unused));'',
              line (render tfunc),
              line (''  return '' @ ret @ '';''),
              line ''}'',
              line [],
              line ''STATIC_FUNCTION(cl_bool)'',
              line ''gpuscan_quals_eval_column(kern_context *kcxt,'',
              line ''                          kern_data_store *kds,'',
              line ''                          cl_uint row_index)'',
              line ''{'',
              line ''  void *addr __attribute__((unused));'',
              line (render cfunc),
              line (''  return '' @ ret @ '';''),
              line ''}'',
              line []], context))"


subsection \<open>The shared block cursor: \<^verbatim>\<open>gpuscan_parallel_nextpage\<close>\<close>

type_synonym BlockNumber = "32 word"

definition InvalidBlockNumber :: BlockNumber where
  "InvalidBlockNumber = 0xFFFFFFFF"

record ParallelHeapScanDesc =
  phs_syncscan :: bool
  phs_startblock :: BlockNumber
  phs_cblock :: BlockNumber

record HeapScanDesc =
  rs_nblocks :: BlockNumber
  rs_syncscan :: bool
  rs_cblock :: BlockNumber
  rs_numblocks :: BlockNumber
  rs_parallel :: ParallelHeapScanDesc

text \<open>
  What the function calls outside this file: the start position of a synchronized
  scan, and the columnar cache, whose chunks are of an abstract type \<open>'c\<close>.
\<close>

record 'c nextpage_env =
  ss_get_location :: BlockNumber
  pgstrom_ccache_get_chunk :: "BlockNumber \<Rightarrow> 'c option"
  pgstrom_ccache_is_empty :: "'c \<Rightarrow> bool"

text \<open>
  The initialization of the start block, with its \<^verbatim>\<open>goto retry\<close>. The spinlock is
  released for the call of \<^verbatim>\<open>ss_get_location\<close>; the model is that of one worker, with
  nobody else writing in between.
\<close>

partial_function (option) nextpage_startblock ::
  "'c nextpage_env \<Rightarrow> ParallelHeapScanDesc \<Rightarrow> BlockNumber \<Rightarrow> ParallelHeapScanDesc option" where
  "nextpage_startblock env parallel_scan sync_startpage =
    (if phs_startblock parallel_scan = InvalidBlockNumber
     then (if \<not> phs_syncscan parallel_scan
           then Some (parallel_scan\<lparr>phs_startblock := 0, phs_cblock := 0\<rparr>)
           else if sync_startpage \<noteq> InvalidBlockNumber
           then Some (parallel_scan\<lparr>phs_startblock := sync_startpage,
                                      phs_cblock := sync_startpage\<rparr>)
           else nextpage_startblock env parallel_scan (ss_get_location env))
     else Some parallel_scan)"

text \<open>The loop that skips empty chunks of the columnar cache.\<close>

partial_function (option) ccache_skip_empty ::
  "layout \<Rightarrow> 'c nextpage_env \<Rightarrow> BlockNumber \<Rightarrow> 'c \<Rightarrow> ('c option \<times> BlockNumber) option" where
  "ccache_skip_empty ly env cblock cc_chunk =
    (if pgstrom_ccache_is_empty env cc_chunk
     then (case pgstrom_ccache_get_chunk env cblock of
             None \<Rightarrow> Some (None, cblock)
           | Some cc_chunk \<Rightarrow> ccache_skip_empty ly env (cblock + CCACHE_CHUNK_NBLOCKS ly) cc_chunk)
     else Some (Some cc_chunk, cblock))"

text \<open>The three cuts of the number of blocks to read.\<close>

definition nextpage_nr_blocks ::
  "layout \<Rightarrow> BlockNumber \<Rightarrow> BlockNumber \<Rightarrow> BlockNumber \<Rightarrow> cl_uint \<Rightarrow> cl_uint" where
  "nextpage_nr_blocks ly nblocks startblock page nr_blocks =
    (let nr_blocks = (if page div RELSEG_SIZE ly \<noteq> (page + nr_blocks - 1) div RELSEG_SIZE ly
                      then RELSEG_SIZE ly - page mod RELSEG_SIZE ly else nr_blocks);
         nr_blocks = (if nblocks < page + nr_blocks then nblocks - page else nr_blocks);
         nr_blocks = (if page < startblock \<and> startblock \<le> page + nr_blocks
                      then startblock - page else nr_blocks)
     in nr_blocks)"

text \<open>
  The result: the scan descriptor with the shared cursor advanced and the reservation
  in \<^verbatim>\<open>rs_cblock\<close> and \<^verbatim>\<open>rs_numblocks\<close>, the chunk of the columnar cache to load, if
  any, and the position reported to the synchronized-scan machinery, if any.
\<close>

record 'c nextpage_result =
  np_scan :: HeapScanDesc
  np_cc_chunk :: "'c option"
  np_report :: "BlockNumber option"

definition nextpage_finish ::
  "HeapScanDesc \<Rightarrow> ParallelHeapScanDesc \<Rightarrow> BlockNumber \<Rightarrow> cl_uint \<Rightarrow> 'c option
     \<Rightarrow> BlockNumber \<Rightarrow> 'c nextpage_result" where
  "nextpage_finish scan parallel_scan page nr_blocks cc_chunk report_page =
    (let report_page = (if rs_syncscan scan \<and> report_page = InvalidBlockNumber
                        then page else report_page)
     in \<lparr>np_scan = scan\<lparr>rs_parallel := parallel_scan, rs_cblock := page,
                         rs_numblocks := nr_blocks\<rparr>,
         np_cc_chunk = cc_chunk,
         np_report = (if rs_syncscan scan \<and> report_page \<noteq> InvalidBlockNumber
                      then Some report_page else None)\<rparr>)"

definition gpuscan_parallel_nextpage ::
  "layout \<Rightarrow> 'c nextpage_env \<Rightarrow> bool \<Rightarrow> HeapScanDesc \<Rightarrow> cl_uint
     \<Rightarrow> (error + 'c nextpage_result) option" where
  "gpuscan_parallel_nextpage ly env use_ccache scan nr_blocks =
    (if rs_numblocks scan \<noteq> 0 then Some (Inl (AssertFailure ''scan->rs_numblocks == 0''))
     else case nextpage_startblock env (rs_parallel scan) InvalidBlockNumber of
       None \<Rightarrow> None
     | Some parallel_scan \<Rightarrow>
        (let page = phs_cblock parallel_scan
         in if page = InvalidBlockNumber
            then Some (Inr (nextpage_finish scan parallel_scan page nr_blocks None
                              InvalidBlockNumber))
            else if \<not> page < rs_nblocks scan
            then Some (Inl (AssertFailure ''page < scan->rs_nblocks''))
            else if \<not> (0 < nr_blocks \<and> nr_blocks < RELSEG_SIZE ly)
            then Some (Inl (AssertFailure ''nr_blocks > 0 && nr_blocks < RELSEG_SIZE''))
            else
              (let nr_blocks = nextpage_nr_blocks ly (rs_nblocks scan)
                                 (phs_startblock parallel_scan) page nr_blocks
               in if \<not> 0 < nr_blocks then Some (Inl (AssertFailure ''nr_blocks > 0''))
                  else
                   (let base = (page + CCACHE_CHUNK_NBLOCKS ly - 1)
                                 AND NOT (CCACHE_CHUNK_NBLOCKS ly - 1)
                    in case (if use_ccache
                                \<and> (page \<le> base \<and> base \<le> page + nr_blocks)
                                \<and> (phs_startblock parallel_scan \<le> base
                                    \<or> base + CCACHE_CHUNK_NBLOCKS ly \<le> phs_startblock parallel_scan)
                                \<and> base + CCACHE_CHUNK_NBLOCKS ly \<le> rs_nblocks scan
                             then (case pgstrom_ccache_get_chunk env base of
                                     None \<Rightarrow> Some (None, nr_blocks, phs_cblock parallel_scan)
                                   | Some cc_chunk \<Rightarrow>
                                       map_option (\<lambda>(cc_chunk, cblock). (cc_chunk, base - page, cblock))
                                         (ccache_skip_empty ly env (base + CCACHE_CHUNK_NBLOCKS ly)
                                            cc_chunk))
                             else Some (None, nr_blocks, phs_cblock parallel_scan)) of
                         None \<Rightarrow> None
                       | Some (cc_chunk, nr_blocks, cblock) \<Rightarrow>
                          (let cblock = (if cc_chunk = None then page + nr_blocks else cblock);
                               cblock = (if rs_nblocks scan \<le> cblock then 0 else cblock);
                               at_start = (cblock = phs_startblock parallel_scan);
                               cblock = (if at_start then InvalidBlockNumber else cblock);
                               report_page = (if at_start then phs_startblock parallel_scan
                                              else InvalidBlockNumber)
                           in Some (Inr (nextpage_finish scan
                                           (parallel_scan\<lparr>phs_cblock := cblock\<rparr>)
                                           page nr_blocks cc_chunk report_page)))))))"

subsection \<open>Notions used by the statements\<close>

text \<open>
  Whether a tuple passes the qualifier of the fallback, and the slot the fallback
  returns for a tuple that passes.
\<close>

definition quals_pass :: "('v, 'tup) host_executor \<Rightarrow> expr option \<Rightarrow> 'tup \<Rightarrow> bool" where
  "quals_pass h quals tup =
    (case quals of None \<Rightarrow> True | Some q \<Rightarrow> ExecQual h q (StoredTuple tup))"

definition fallback_slot ::
  "('v, 'tup) host_executor \<Rightarrow> TargetEntry list option \<Rightarrow> 'tup \<Rightarrow> ('v, 'tup) TupleTableSlot" where
  "fallback_slot h proj tup =
    (case proj of None \<Rightarrow> StoredTuple tup | Some tlist \<Rightarrow> ExecProject h tlist (StoredTuple tup))"

definition add_filtered :: "nat \<Rightarrow> GpuScanState \<Rightarrow> GpuScanState" where
  "add_filtered n gss =
    gss\<lparr>gs_rtstat := (gs_rtstat gss)\<lparr>nitems_filtered := nitems_filtered (gs_rtstat gss) + of_nat n\<rparr>\<rparr>"

text \<open>The state inside a \<open>flow\<close>.\<close>

definition flow_state :: "'a flow \<Rightarrow> 'a" where
  "flow_state fl = (case fl of Next s \<Rightarrow> s | Goto_out_of_resource s \<Rightarrow> s)"

text \<open>
  Rows in and rows out of a completed task: the counters of the device program on the
  accelerated path; on the fallback path the tuples of the source chunk and the slots
  that were returned.
\<close>

definition task_rows_in :: "'tup GpuScanTask \<Rightarrow> 64 word" where
  "task_rows_in t =
    (if cpu_fallback t then of_nat (length (pds_tuples (pds_src t)))
     else ucast (nitems_in (kern t)))"

definition task_rows_out :: "'tup GpuScanTask \<Rightarrow> ('v, 'tup) TupleTableSlot list \<Rightarrow> 64 word" where
  "task_rows_out t slots =
    (if cpu_fallback t then of_nat (length slots) else ucast (nitems_out (kern t)))"

text \<open>The error codes that the executor turns into a CPU fallback.\<close>

definition recoverable :: "bool \<Rightarrow> StromError \<Rightarrow> bool" where
  "recoverable fallback_enabled code =
    (fallback_enabled \<and> (code = StromError_CpuReCheck \<or> code = StromError_DataStoreNoSpace))"

text \<open>
  The row the device program sees: the stored tuple itself without device projection,
  else its image under \<^verbatim>\<open>custom_scan_tlist\<close>.
\<close>

definition device_row ::
  "('v, 'tup) host_executor \<Rightarrow> TargetEntry list \<Rightarrow> 'tup \<Rightarrow> ('v, 'tup) TupleTableSlot" where
  "device_row h tlist tup =
    (if tlist = [] then StoredTuple tup else ExecProject h tlist (StoredTuple tup))"



subsection \<open>Sample inputs\<close>

text \<open>Concrete values at which the theorems below are instantiated.\<close>

definition layout_sample :: layout where
  "layout_sample = \<lparr>STROMALIGN_LEN = 16, kds_colmeta_off = 64, sizeof_colmeta = 16,
     gscan_kparams_off = 128, resultbuf_results_off = 16, BLCKSZ = 8192,
     RELSEG_SIZE = 131072, CCACHE_CHUNK_NBLOCKS = 16384\<rparr>"

definition row_store :: "cl_uint \<Rightarrow> nat list list \<Rightarrow> nat list pgstrom_data_store" where
  "row_store n ts = \<lparr>kds_format = KDS_FORMAT_ROW, kds_length = 1024, kds_nitems = n,
     kds_nrooms = n, kds_nrows_per_block = 0, nblocks_uncached = 0, pds_tuples = ts\<rparr>"

definition block_store ::
  "cl_uint \<Rightarrow> cl_uint \<Rightarrow> cl_uint \<Rightarrow> nat list list \<Rightarrow> nat list pgstrom_data_store" where
  "block_store n per_block uncached ts =
    \<lparr>kds_format = KDS_FORMAT_BLOCK, kds_length = 65536, kds_nitems = n, kds_nrooms = n,
     kds_nrows_per_block = per_block, nblocks_uncached = uncached, pds_tuples = ts\<rparr>"

definition task_env_sample :: "nat list task_env" where
  "task_env_sample =
    \<lparr>PDS_create_row = (\<lambda>natts len. Inr ((row_store 0 [])\<lparr>kds_length := len\<rparr>)),
     gpuMemAllocManaged = (\<lambda>len. CUDA_SUCCESS)\<rparr>"

definition gss_sample :: "bool \<Rightarrow> cl_uint \<Rightarrow> GpuScanState" where
  "gss_sample proj sz = \<lparr>dev_projection = proj, gss_proj_tuple_sz = sz, gss_proj_extra_sz = 0,
     scan_natts = 2, kern_params_length = 40, gss_dev_quals = None, base_proj = None,
     curr_index = 0, gs_rtstat = \<lparr>nitems_filtered = 0, ccache_count = 0\<rparr>\<rparr>"

definition host_sample :: "(nat, nat list) host_executor" where
  "host_sample =
    \<lparr>heap_getattr = (\<lambda>tup attnum.
        if 1 \<le> attnum \<and> attnum \<le> int (length tup) then tup ! nat (attnum - 1) else 0),
     eval_node = (\<lambda>tag vs. case vs of [v] \<Rightarrow> (if tag = ''ge2'' \<and> 2 \<le> v then 1 else 0) | _ \<Rightarrow> 0),
     null_datum = 0,
     datum_is_true = (\<lambda>v. v \<noteq> 0),
     KDS_REF_HTUP = (\<lambda>pds offset. pds_tuples pds ! unat offset)\<rparr>"

definition gpu_env_sample :: "nat list gpu_env" where
  "gpu_env_sample =
    \<lparr>driver = (\<lambda>calls c. CUDA_SUCCESS),
     kern_after = (\<lambda>kern_fname gscan.
        if kern_fname = ''gpuscan_exec_quals_row''
        then (kern gscan)\<lparr>nitems_in := kds_nitems (pds_src gscan), nitems_out := 1,
               kern_kresults := (kern_kresults (kern gscan))\<lparr>nitems := 1, results := [0]\<rparr>\<rparr>
        else (kern gscan)\<lparr>kern_kerror :=
               \<lparr>errcode = StromError_CpuReCheck, kernel = 0, lineno = 0\<rparr>\<rparr>),
     dst_after = (\<lambda>kern_fname gscan dst. dst),
     PDS_fillup_blocks = (\<lambda>pds. pds\<lparr>nblocks_uncached := 0\<rparr>)\<rparr>"

definition task_sample ::
  "nat list pgstrom_data_store \<Rightarrow> nat list pgstrom_data_store option \<Rightarrow> nat list GpuScanTask" where
  "task_sample src dst =
    \<lparr>task_kerror = kern_errorbuf_zero, cpu_fallback = False,
     with_nvme_strom = (kds_format src = KDS_FORMAT_BLOCK \<and> 0 < nblocks_uncached src),
     with_projection = False, pds_src = src, pds_dst = dst,
     kresults = (if dst = None then KERN_GPUSCAN_RESULTBUF else NULL_kresults),
     kern = \<lparr>kern_kerror = kern_errorbuf_zero, nitems_in = 0, nitems_out = 0, extra_size = 0,
             kparams_length = 40,
             kern_kresults = kern_resultbuf_zero
               \<lparr>nrels := 1, nrooms := (if dst = None then kds_nitems src else 0)\<rparr>\<rparr>\<rparr>"

definition gss_quals_sample :: GpuScanState where
  "gss_quals_sample = (gss_sample False 8)\<lparr>gss_dev_quals := Some (Node ''ge2'' [Var 1 1 23])\<rparr>"

text \<open>
  A plan with a device projection that swaps the two columns of the relation; its
  qualifier asks for the first projected column, the second one of the relation, to be
  at least 2.
\<close>

definition cscan_sample :: "expr CustomScan" where
  "cscan_sample =
    form_gpuscan_info
      \<lparr>custom_private = [], custom_exprs = [],
       custom_scan_tlist = [\<lparr>tle_expr = Var 1 2 23, resjunk = False\<rparr>,
                            \<lparr>tle_expr = Var 1 1 23, resjunk = False\<rparr>]\<rparr>
      \<lparr>ex = ExtensibleNode_zero, kern_source = ''/* kernel */'', extra_flags = 0,
       proj_tuple_sz = 16, proj_extra_sz = 0, nrows_per_block = 10,
       ccache_refs = [], used_params = [],
       dev_quals = [Node ''ge2'' [Var INDEX_VAR 1 23]]\<rparr>"






definition nextpage_env_sample :: "nat nextpage_env" where
  "nextpage_env_sample =
    \<lparr>ss_get_location = 0,
     pgstrom_ccache_get_chunk = (\<lambda>block. None),
     pgstrom_ccache_is_empty = (\<lambda>chunk. False)\<rparr>"

text \<open>
  A scan of a relation of \<open>nblocks\<close> blocks that started at \<open>startblock\<close>, with the shared
  cursor at \<open>cblock\<close>; not a synchronized scan.
\<close>

definition scan_sample :: "BlockNumber \<Rightarrow> BlockNumber \<Rightarrow> BlockNumber \<Rightarrow> HeapScanDesc" where
  "scan_sample nblocks startblock cblock =
    \<lparr>rs_nblocks = nblocks, rs_syncscan = False, rs_cblock = InvalidBlockNumber,
     rs_numblocks = 0,
     rs_parallel = \<lparr>phs_syncscan = False, phs_startblock = startblock, phs_cblock = cblock\<rparr>\<rparr>"

section \<open>Theorems\<close>

lemma ucast_long_cl_uint: "(ucast (ucast (w :: cl_uint) :: 64 word) :: cl_uint) = w"
  by (rule bit_word_eqI) (auto simp: bit_simps)

text \<open>
  C10. Deforming the private fields that \<^verbatim>\<open>form_gpuscan_info\<close> stored gives back the
  \<^verbatim>\<open>GpuScanInfo\<close>: the call succeeds and the fields \<^verbatim>\<open>kern_source\<close>,
  \<^verbatim>\<open>extra_flags\<close>, \<^verbatim>\<open>proj_tuple_sz\<close>, \<^verbatim>\<open>proj_extra_sz\<close>, \<^verbatim>\<open>nrows_per_block\<close>,
  \<^verbatim>\<open>ccache_refs\<close>, \<^verbatim>\<open>used_params\<close> and \<^verbatim>\<open>dev_quals\<close> of the result equal those of
  the input (only the zeroed \<^verbatim>\<open>ex\<close> header is not carried over).
\<close>

theorem deform_form_gpuscan_info:
  "\<exists>g. deform_gpuscan_info (form_gpuscan_info cscan info) = Inr g
     \<and> kern_source g = kern_source info
     \<and> extra_flags g = extra_flags info
     \<and> proj_tuple_sz g = proj_tuple_sz info
     \<and> proj_extra_sz g = proj_extra_sz info
     \<and> nrows_per_block g = nrows_per_block info
     \<and> ccache_refs g = ccache_refs info
     \<and> used_params g = used_params info
     \<and> dev_quals g = dev_quals info"
  by (simp add: deform_gpuscan_info_def form_gpuscan_info_def bindE_def list_nth_def
      strVal_def intVal_def listVal_def makeString_def makeInteger_def lappend_def
      ucast_long_cl_uint)

subsection \<open>The task factory\<close>

lemmas dbl_eval =
  dbl_mul_def dbl_of_uint_def dbl_of_size_def dbl_1_2_def dbl_round_def dbl_to_Size_def
  dbl_trunc_def bitlen.simps

lemmas sample_task_defs =
  layout_sample_def gss_sample_def row_store_def block_store_def task_env_sample_def

lemmas sample_defs = sample_task_defs host_sample_def gpu_env_sample_def task_sample_def
  gss_quals_sample_def

lemmas process_defs = gpuscan_process_task_def process_lookup_def kern_fname_of_def
  process_alloc_def process_enqueue_def process_status_def process_writeback_def
  process_results_def out_of_resource_def checked_def cuda_def effect_def bindE_def
  kern_errorbuf_zero_def kern_resultbuf_zero_def

lemmas drain_defs = complete_task_def gpuscan_next_tuple_def
  gpuscan_next_tuple_fallback.simps PDS_fetch_tuple_def ExecQual_def ExecProject_def
  slot_getattr_def

lemma bindE_Inr: "bindE (Inr x) f = f x"
  by (simp add: bindE_def)

lemma bindE_Inl: "bindE (Inl e) f = Inl e"
  by (simp add: bindE_def)

lemma bitlen_le: "bitlen m \<le> k \<longleftrightarrow> m < 2 ^ k"
proof (induction m arbitrary: k rule: bitlen.induct)
  case (1 n)
  show ?case
  proof (cases "n = 0")
    case True
    then show ?thesis by (simp add: bitlen.simps)
  next
    case False
    show ?thesis
    proof (cases k)
      case 0
      with False show ?thesis by (simp add: bitlen.simps [of n])
    next
      case (Suc j)
      have "bitlen (n div 2) \<le> j \<longleftrightarrow> n div 2 < 2 ^ j" using 1 False by simp
      moreover have "n div 2 < 2 ^ j \<longleftrightarrow> n < 2 ^ Suc j" by auto
      ultimately show ?thesis using False Suc by (simp add: bitlen.simps [of n])
    qed
  qed
qed

text \<open>A product of two counts below \<open>2 ^ 53\<close> is exact in double precision.\<close>

lemma dbl_mul_exact:
  "unat a * unat b < 2 ^ 53 \<Longrightarrow> dbl_mul (dbl_of_uint a) (dbl_of_uint b) = (unat a * unat b, 0)"
  by (simp add: dbl_mul_def dbl_of_uint_def dbl_round_def bitlen_le)

lemma ceiling_6_5: "\<lceil>(6 / 5 :: rat)\<rceil> = 2"
  by (rule ceiling_unique) simp_all



text \<open>
  C6, as the claim states it, fails. For a row-format source chunk of one item under
  device projection with an average projected tuple size of 1, the claimed capacity is
  \<open>\<lceil>1.2\<rceil> = 2\<close>, but the destination chunk is requested with 128 bytes under the
  sample layout: the aligned header, the aligned row-index array and the aligned body
  estimate; the body estimate itself is \<^verbatim>\<open>(Size) 1.2\<close>, that is 1, aligned to 16.
\<close>

theorem create_task_capacity_counterexample:
  "(case gpuscan_create_task layout_sample task_env_sample (gss_sample True 1)
           (row_store 1 [[7]]) of
      Inl e \<Rightarrow> None | Inr g \<Rightarrow> map_option kds_length (pds_dst g)) = Some 128
   \<and> spec_capacity 1 1 = 2
   \<and> dbl_to_Size (dbl_mul (dbl_mul dbl_1_2 (dbl_of_uint 1)) (dbl_of_uint 1)) = Inr 1
   \<and> STROMALIGN layout_sample 1 = 16"
  by (simp add: gpuscan_create_task_def dest_length_def sample_task_defs bindE_def
      dbl_eval STROMALIGN_def TYPEALIGN_def spec_capacity_def ceiling_6_5)

text \<open>
  C6, amended. When a destination chunk is required, the factory asks
  \<^verbatim>\<open>PDS_create_row\<close> for a chunk whose byte length is the sum of three parts, each
  rounded up by \<^verbatim>\<open>STROMALIGN\<close>: the header for the columns of the scan, four bytes per
  expected row, and the integer part of 1.2 \<times> average projected tuple size \<times>
  expected row count, the products taken in double precision. For a block-format
  source chunk the expected row count is the item count times the estimated rows per
  block, otherwise the item count. The task owns the chunk that is returned.
\<close>

theorem create_task_dest_length:
  assumes need: "\<not> (kds_format src = KDS_FORMAT_ROW \<and> \<not> dev_projection gss)"
    and rows: "kds_format src = KDS_FORMAT_BLOCK \<longrightarrow> 0 < kds_nrows_per_block src"
    and idx: "dbl_trunc (dbl_mul (dbl_of_size 4) (expected_rows src)) < 2 ^ 64"
    and body: "dbl_trunc (dbl_mul (dbl_mul dbl_1_2 (dbl_of_uint (gss_proj_tuple_sz gss)))
                  (expected_rows src)) < 2 ^ 64"
    and dst: "PDS_create_row env (scan_natts gss)
        (STROMALIGN ly (kds_colmeta_off ly + sizeof_colmeta ly * scan_natts gss)
         + STROMALIGN ly (of_nat (dbl_trunc (dbl_mul (dbl_of_size 4) (expected_rows src))))
         + STROMALIGN ly (of_nat (dbl_trunc
              (dbl_mul (dbl_mul dbl_1_2 (dbl_of_uint (gss_proj_tuple_sz gss)))
                 (expected_rows src))))) = Inr d"
    and alloc: "\<forall>len. gpuMemAllocManaged env len = CUDA_SUCCESS"
  shows "\<exists>g. gpuscan_create_task ly env gss src = Inr g \<and> pds_dst g = Some d"
proof (cases "kds_format src = KDS_FORMAT_BLOCK")
  case True
  with assms show ?thesis
    by (simp add: gpuscan_create_task_def dest_length_def expected_rows_def bindE_def
        dbl_to_Size_def Let_def)
next
  case False
  with assms show ?thesis
    by (simp add: gpuscan_create_task_def dest_length_def expected_rows_def bindE_def
        dbl_to_Size_def Let_def)
qed


theorem create_task_dest_length_witness:
  "\<exists>g. gpuscan_create_task layout_sample task_env_sample (gss_sample True 8)
         (block_store 4 10 2 []) = Inr g
       \<and> pds_dst g = Some ((row_store 0 [])\<lparr>kds_length := 640\<rparr>)"
  by (rule create_task_dest_length)
    (simp_all add: sample_task_defs expected_rows_def dbl_eval STROMALIGN_def TYPEALIGN_def)


subsection \<open>The CPU fallback\<close>

text \<open>
  One call of the fallback skips the tuples that fail the qualifier, counting each of
  them, and returns the first tuple that passes, projected; draining a task flagged
  for fallback returns the passing tuples of the source chunk, in order.
\<close>

lemma drop_eq_Cons_iff:
  "drop k xs = t # ts \<Longrightarrow> k < length xs \<and> xs ! k = t \<and> drop (Suc k) xs = ts"
proof -
  assume a: "drop k xs = t # ts"
  then have k: "k < length xs" by (cases "k < length xs") auto
  from Cons_nth_drop_Suc [OF k] a show ?thesis using k by simp
qed

lemma fallback_step:
  "drop (curr_index gss) (pds_tuples (pds_src gscan)) = rest \<Longrightarrow>
   gpuscan_next_tuple_fallback h gss gscan =
     (case dropWhile (\<lambda>t. \<not> quals_pass h (gss_dev_quals gss) t) rest of
        [] \<Rightarrow> (None, add_filtered (length rest) (gss\<lparr>curr_index := curr_index gss + length rest\<rparr>))
      | t # ts \<Rightarrow>
          (Some (fallback_slot h (base_proj gss) t),
           add_filtered (length (takeWhile (\<lambda>t. \<not> quals_pass h (gss_dev_quals gss) t) rest))
             (gss\<lparr>curr_index := curr_index gss
                 + length (takeWhile (\<lambda>t. \<not> quals_pass h (gss_dev_quals gss) t) rest) + 1\<rparr>)))"
proof (induction rest arbitrary: gss)
  case Nil
  then have "PDS_fetch_tuple (pds_src gscan) gss = None"
    by (simp add: PDS_fetch_tuple_def)
  then show ?case
    by (simp add: gpuscan_next_tuple_fallback.simps [of h gss gscan] add_filtered_def)
next
  case (Cons t rest)
  from drop_eq_Cons_iff [OF Cons.prems]
  have k: "curr_index gss < length (pds_tuples (pds_src gscan))"
    and t: "pds_tuples (pds_src gscan) ! curr_index gss = t"
    and r: "drop (Suc (curr_index gss)) (pds_tuples (pds_src gscan)) = rest"
    by simp_all
  let ?g1 = "gss\<lparr>curr_index := curr_index gss + 1\<rparr>"
  have fetch: "PDS_fetch_tuple (pds_src gscan) gss = Some (t, ?g1)"
    using k t by (simp add: PDS_fetch_tuple_def)
  show ?case
  proof (cases "quals_pass h (gss_dev_quals gss) t")
    case True
    then show ?thesis using fetch
      by (simp add: gpuscan_next_tuple_fallback.simps [of h gss gscan] quals_pass_def
          fallback_slot_def add_filtered_def split: option.splits)
  next
    case False
    let ?g2 = "?g1\<lparr>gs_rtstat := (gs_rtstat ?g1)
                 \<lparr>nitems_filtered := nitems_filtered (gs_rtstat ?g1) + 1\<rparr>\<rparr>"
    have step: "gpuscan_next_tuple_fallback h gss gscan = gpuscan_next_tuple_fallback h ?g2 gscan"
      using fetch False
      by (simp add: gpuscan_next_tuple_fallback.simps [of h gss gscan] quals_pass_def
          split: option.splits)
    have "drop (curr_index ?g2) (pds_tuples (pds_src gscan)) = rest" using r by simp
    note ih = Cons.IH [OF this]
    show ?thesis
    proof (cases "dropWhile (\<lambda>t. \<not> quals_pass h (gss_dev_quals gss) t) rest")
      case Nil
      from ih step False show ?thesis
        by (simp add: Nil add_filtered_def ac_simps)
    next
      case (Cons u us)
      from ih step False show ?thesis
        by (simp add: Cons add_filtered_def ac_simps)
    qed
  qed
qed

lemma drain_fallback:
  assumes fb: "cpu_fallback gscan"
  shows "drop (curr_index gss) (pds_tuples (pds_src gscan)) = rest \<Longrightarrow>
    drain_task h gss gscan =
      Inr (map (fallback_slot h (base_proj gss)) (filter (quals_pass h (gss_dev_quals gss)) rest),
           add_filtered (length (filter (\<lambda>t. \<not> quals_pass h (gss_dev_quals gss) t) rest))
             (gss\<lparr>curr_index := curr_index gss + length rest\<rparr>))"
proof (induction "length rest" arbitrary: gss rest rule: less_induct)
  case less
  let ?np = "\<lambda>t. \<not> quals_pass h (gss_dev_quals gss) t"
  have split: "rest = takeWhile ?np rest @ dropWhile ?np rest" by simp
  have nopass: "filter (quals_pass h (gss_dev_quals gss)) (takeWhile ?np rest) = []"
    by (induction rest) auto
  have allrej: "filter ?np (takeWhile ?np rest) = takeWhile ?np rest"
    by (induction rest) auto
  show ?case
  proof (cases "dropWhile ?np rest")
    case Nil
    then have tw: "takeWhile ?np rest = rest" using split by simp
    have f1: "filter (quals_pass h (gss_dev_quals gss)) rest = []" using nopass tw by simp
    have f2: "filter ?np rest = rest" using allrej tw by simp
    show ?thesis
      using fallback_step [OF less.prems, of h] Nil fb f1 f2
      by (simp add: drain_task.simps [of h gss gscan] gpuscan_next_tuple_def)
  next
    case (Cons t ts)
    let ?n = "length (takeWhile ?np rest)"
    let ?g' = "add_filtered ?n (gss\<lparr>curr_index := curr_index gss + ?n + 1\<rparr>)"
    have next_t: "gpuscan_next_tuple h gss gscan = Inr (Some (fallback_slot h (base_proj gss) t), ?g')"
      using fallback_step [OF less.prems, of h] Cons fb by (simp add: gpuscan_next_tuple_def)
    have rest_eq: "rest = takeWhile ?np rest @ t # ts" using split Cons by simp
    have len: "length rest = ?n + Suc (length ts)"
      using arg_cong [OF rest_eq, of length] by simp
    have pass_t: "quals_pass h (gss_dev_quals gss) t"
      using Cons dropWhile_eq_Cons_conv [of ?np rest t ts] by simp
    have "drop (?n + 1) rest = drop (?n + 1) (drop (curr_index gss) (pds_tuples (pds_src gscan)))"
      using less.prems by simp
    also have "\<dots> = drop (?n + 1 + curr_index gss) (pds_tuples (pds_src gscan))"
      by (rule drop_drop)
    finally have "drop (curr_index gss + ?n + 1) (pds_tuples (pds_src gscan)) = drop (?n + 1) rest"
      by (simp add: ac_simps)
    also have "\<dots> = ts" using rest_eq
      by (metis Suc_eq_plus1 append_eq_conv_conj drop_Suc_Cons drop_drop add.commute drop0)
    finally have d: "drop (curr_index ?g') (pds_tuples (pds_src gscan)) = ts"
      by (simp add: add_filtered_def)
    have lt: "length ts < length rest" using len by simp
    have q: "gss_dev_quals ?g' = gss_dev_quals gss" "base_proj ?g' = base_proj gss"
      by (simp_all add: add_filtered_def)
    have ih: "drain_task h ?g' gscan =
      Inr (map (fallback_slot h (base_proj gss)) (filter (quals_pass h (gss_dev_quals gss)) ts),
           add_filtered (length (filter ?np ts)) (?g'\<lparr>curr_index := curr_index ?g' + length ts\<rparr>))"
      using less.hyps [OF lt d] q by simp
    have fp: "filter (quals_pass h (gss_dev_quals gss)) rest
        = t # filter (quals_pass h (gss_dev_quals gss)) ts"
      using arg_cong [OF rest_eq, of "filter (quals_pass h (gss_dev_quals gss))"] nopass pass_t
      by simp
    have fr: "length (filter ?np rest) = ?n + length (filter ?np ts)"
      using arg_cong [OF rest_eq, of "\<lambda>xs. length (filter ?np xs)"] allrej pass_t by simp
    show ?thesis
      using next_t ih fp fr len
      by (simp add: drain_task.simps [of h gss gscan] bindE_def add_filtered_def ac_simps)
  qed
qed

subsection \<open>The stages of the executor\<close>

lemma checked_Inr: "checked env c msg st = Inr st' \<Longrightarrow> st' = effect c st"
  by (auto simp: checked_def cuda_def effect_def split: if_splits)

lemma effect_simps [simp]:
  "ws_gscan (effect c st) = ws_gscan st"
  "ws_rtstat (effect c st) = ws_rtstat st"
  "ws_m_kds_src (effect c st) = ws_m_kds_src st"
  by (simp_all add: effect_def)

lemma process_lookup_Inr:
  "process_lookup env st = Inr (f, st') \<Longrightarrow>
     ws_gscan st' = ws_gscan st \<and> ws_rtstat st' = ws_rtstat st"
  by (auto simp: process_lookup_def bindE_def split: sum.splits dest!: checked_Inr)

lemma process_alloc_Inr:
  "process_alloc env st = Inr fl \<Longrightarrow>
     ws_rtstat (flow_state fl) = ws_rtstat st
     \<and> cpu_fallback (ws_gscan (flow_state fl)) = cpu_fallback (ws_gscan st)"
  by (auto simp: process_alloc_def bindE_def flow_state_def cuda_def effect_def
      split: sum.splits if_splits prod.splits)

lemma process_enqueue_Inr:
  "process_enqueue env f st = Inr st' \<Longrightarrow>
     ws_rtstat st' = ws_rtstat st
     \<and> cpu_fallback (ws_gscan st') = cpu_fallback (ws_gscan st)"
  by (auto simp: process_enqueue_def bindE_def split: sum.splits if_splits dest!: checked_Inr)

lemma process_writeback_Inr:
  "process_writeback ly env st = Inr st' \<Longrightarrow>
     ws_rtstat st' = ws_rtstat st \<and> ws_gscan st' = ws_gscan st"
  by (auto simp: process_writeback_def bindE_def
      split: sum.splits if_splits option.splits dest!: checked_Inr)

lemma process_status_Inr:
  "process_status ly env fb st = Inr fl \<Longrightarrow>
     errcode (task_kerror (ws_gscan (flow_state fl))) = StromError_Success \<Longrightarrow>
     (fl = Next (flow_state fl)
      \<and> kern (ws_gscan (flow_state fl)) = kern (ws_gscan st)
      \<and> cpu_fallback (ws_gscan (flow_state fl)) = cpu_fallback (ws_gscan st)
      \<and> ws_rtstat (flow_state fl) = (ws_rtstat st)
           \<lparr>nitems_filtered := nitems_filtered (ws_rtstat st)
              + (ucast (nitems_in (kern (ws_gscan st))) - ucast (nitems_out (kern (ws_gscan st))))\<rparr>)
     \<or> (fl = Goto_out_of_resource (flow_state fl)
      \<and> cpu_fallback (ws_gscan (flow_state fl)) \<and> ws_rtstat (flow_state fl) = ws_rtstat st)"
  by (auto simp: process_status_def bindE_def flow_state_def Let_def
      split: sum.splits if_splits dest!: process_writeback_Inr)

lemma process_results_Inr:
  "process_results env st = Inr st' \<Longrightarrow>
     ws_rtstat st' = ws_rtstat st \<and> ws_gscan st' = ws_gscan st"
  by (auto simp: process_results_def bindE_def split: sum.splits if_splits dest!: checked_Inr)

lemma out_of_resource_simps [simp]:
  "ws_gscan (snd (out_of_resource r st)) = ws_gscan st"
  "ws_rtstat (snd (out_of_resource r st)) = ws_rtstat st"
  "fst (out_of_resource r st) = r"
  by (simp_all add: out_of_resource_def Let_def)

lemma process_task_cases:
  assumes run: "gpuscan_process_task ly env fb rt gscan = Inr (0, st)"
    and ok: "errcode (task_kerror (ws_gscan st)) = StromError_Success"
  shows "(cpu_fallback (ws_gscan st) = cpu_fallback gscan
          \<and> ws_rtstat st = rt\<lparr>nitems_filtered := nitems_filtered rt
               + (ucast (nitems_in (kern (ws_gscan st))) - ucast (nitems_out (kern (ws_gscan st))))\<rparr>)
       \<or> (cpu_fallback (ws_gscan st) \<and> ws_rtstat st = rt)"
proof -
  let ?st0 = "\<lparr>ws_gscan = gscan, ws_rtstat = rt, ws_calls = [], ws_m_kds_src = Ptr_NULL\<rparr>"
  from run obtain f st1 where l: "process_lookup env ?st0 = Inr (f, st1)"
    by (auto simp: gpuscan_process_task_def bindE_def Let_def split: sum.splits)
  from run l obtain fl2 where a: "process_alloc env st1 = Inr fl2"
    by (auto simp: gpuscan_process_task_def bindE_def Let_def split: sum.splits)
  from run l a obtain st2 where n2: "fl2 = Next st2"
    by (cases fl2) (auto simp: gpuscan_process_task_def bindE_def Let_def out_of_resource_def
        split: sum.splits if_splits)
  from run l a n2 obtain st3 where e: "process_enqueue env f st2 = Inr st3"
    by (auto simp: gpuscan_process_task_def bindE_def Let_def split: sum.splits)
  from run l a n2 e obtain fl4 where s: "process_status ly env fb st3 = Inr fl4"
    by (auto simp: gpuscan_process_task_def bindE_def Let_def split: sum.splits)
  from process_lookup_Inr [OF l] have 1: "ws_rtstat st1 = rt" "cpu_fallback (ws_gscan st1) = cpu_fallback gscan"
    by simp_all
  from process_alloc_Inr [OF a] n2 1 have 2: "ws_rtstat st2 = rt" "cpu_fallback (ws_gscan st2) = cpu_fallback gscan"
    by (simp_all add: flow_state_def)
  from process_enqueue_Inr [OF e] 2 have 3: "ws_rtstat st3 = rt" "cpu_fallback (ws_gscan st3) = cpu_fallback gscan"
    by simp_all
  show ?thesis
  proof (cases fl4)
    case (Goto_out_of_resource st4)
    with run l a n2 e s have st: "st = snd (out_of_resource 0 st4)"
      by (auto simp: gpuscan_process_task_def bindE_def Let_def split: sum.splits)
    with ok have "errcode (task_kerror (ws_gscan (flow_state fl4))) = StromError_Success"
      using Goto_out_of_resource by (simp add: flow_state_def)
    from process_status_Inr [OF s this] Goto_out_of_resource st 3 show ?thesis
      by (simp add: flow_state_def)
  next
    case (Next st4)
    with run l a n2 e s obtain st5 where r: "process_results env st4 = Inr st5"
      and st: "st = snd (out_of_resource 0 st5)"
      by (auto simp: gpuscan_process_task_def bindE_def Let_def split: sum.splits)
    from process_results_Inr [OF r] st ok
    have "errcode (task_kerror (ws_gscan (flow_state fl4))) = StromError_Success"
      using Next by (simp add: flow_state_def)
    from process_status_Inr [OF s this] Next st 3 process_results_Inr [OF r] show ?thesis
      by (simp add: flow_state_def)
  qed
qed

lemma checked_ok:
  "\<forall>calls c. driver env calls c = CUDA_SUCCESS \<Longrightarrow> checked env c msg st = Inr (effect c st)"
  by (simp add: checked_def cuda_def effect_def)

lemma cuda_ok:
  "\<forall>calls c. driver env calls c = CUDA_SUCCESS \<Longrightarrow> cuda env c st = (CUDA_SUCCESS, effect c st)"
  by (simp add: cuda_def effect_def)

lemma process_lookup_ok:
  assumes drv: "\<forall>calls c. driver env calls c = CUDA_SUCCESS"
    and fmt: "kern_fname_of (kds_format (pds_src (ws_gscan st))) = Inr f"
  shows "process_lookup env st = Inr (f, effect (Call_cuModuleGetFunction f) st)"
  using fmt by (simp add: process_lookup_def bindE_def checked_ok [OF drv])

lemma process_alloc_ok:
  assumes drv: "\<forall>calls c. driver env calls c = CUDA_SUCCESS"
    and m: "ws_m_kds_src st = Ptr_NULL"
  shows "\<exists>st'. process_alloc env st = Inr (Next st') \<and> ws_gscan st' = ws_gscan st
           \<and> ws_rtstat st' = ws_rtstat st"
  using m
  by (simp add: process_alloc_def bindE_def cuda_ok [OF drv] effect_def)

lemma process_enqueue_ok:
  assumes drv: "\<forall>calls c. driver env calls c = CUDA_SUCCESS"
  shows "\<exists>st'. process_enqueue env f st = Inr st' \<and> ws_rtstat st' = ws_rtstat st
           \<and> ws_gscan st' = (ws_gscan st)\<lparr>kern := kern_after env f (ws_gscan st),
                 pds_dst := map_option (dst_after env f (ws_gscan st)) (pds_dst (ws_gscan st))\<rparr>"
  by (simp add: process_enqueue_def bindE_def checked_ok [OF drv])

lemma process_writeback_ok:
  assumes drv: "\<forall>calls c. driver env calls c = CUDA_SUCCESS"
    and dst: "with_nvme_strom (ws_gscan st) \<longrightarrow> pds_dst (ws_gscan st) \<noteq> None"
  shows "\<exists>st'. process_writeback ly env st = Inr st' \<and> ws_rtstat st' = ws_rtstat st
           \<and> ws_gscan st' = ws_gscan st"
  using dst
  by (auto simp: process_writeback_def bindE_def checked_ok [OF drv] split: option.splits)

lemma process_results_ok:
  assumes drv: "\<forall>calls c. driver env calls c = CUDA_SUCCESS"
    and ok: "if pds_dst (ws_gscan st) \<noteq> None
             then (0 < nitems_out (kern (ws_gscan st)) \<longrightarrow> 0 < extra_size (kern (ws_gscan st)))
             else extra_size (kern (ws_gscan st)) = 0"
  shows "\<exists>st'. process_results env st = Inr st' \<and> ws_rtstat st' = ws_rtstat st
           \<and> ws_gscan st' = ws_gscan st"
  using ok
  by (auto simp: process_results_def bindE_def checked_ok [OF drv] split: if_splits)

subsection \<open>The rows-filtered counter\<close>

lemma drain_accelerated:
  "\<not> cpu_fallback gscan \<Longrightarrow> drain_task h gss gscan = Inr (slots, gss') \<Longrightarrow>
     gss' = gss\<lparr>curr_index := curr_index gss'\<rparr>"
proof (induction h gss gscan arbitrary: slots gss' rule: drain_task.induct)
  case (1 h gss gscan)
  from "1.prems" obtain r g1 where nt: "gpuscan_next_tuple h gss gscan = Inr (r, g1)"
    by (auto simp: drain_task.simps [of h gss gscan] split: sum.splits)
  have g1: "g1 = gss\<lparr>curr_index := curr_index g1\<rparr>"
    using nt "1.prems"(1)
    by (auto simp: gpuscan_next_tuple_def PDS_fetch_tuple_def
        split: if_splits option.splits kresults_ptr.splits)
  show ?case
  proof (cases r)
    case None
    with nt "1.prems" g1 show ?thesis
      by (simp add: drain_task.simps [of h gss gscan])
  next
    case (Some slot)
    with nt "1.prems" obtain ss where d: "drain_task h g1 gscan = Inr (ss, gss')"
      by (auto simp: drain_task.simps [of h gss gscan] bindE_def split: sum.splits)
    from "1.IH" [OF nt refl Some "1.prems"(1) d]
    have "gss' = g1\<lparr>curr_index := curr_index gss'\<rparr>" .
    with g1 show ?thesis by (metis GpuScanState.surjective GpuScanState.update_convs(8))
  qed
qed

lemma of_nat_filter_split:
  "(of_nat (length (filter (\<lambda>t. \<not> P t) xs)) :: 64 word)
     = of_nat (length xs) - of_nat (length (filter P xs))"
proof -
  have "length xs = length (filter P xs) + length (filter (\<lambda>t. \<not> P t) xs)"
    by (rule sum_length_filter_compl [symmetric])
  then have "(of_nat (length xs) :: 64 word)
      = of_nat (length (filter P xs)) + of_nat (length (filter (\<lambda>t. \<not> P t) xs))"
    by (metis of_nat_add)
  then show ?thesis by simp
qed

lemma complete_task_rows_filtered:
  assumes run: "complete_task ly env fb h gss gscan = Inr ((t, slots), gss')"
    and nofb: "\<not> cpu_fallback gscan"
  shows "nitems_filtered (gs_rtstat gss')
           = nitems_filtered (gs_rtstat gss) + (task_rows_in t - task_rows_out t slots)
       \<and> (cpu_fallback t \<longrightarrow>
            slots = map (fallback_slot h (base_proj gss))
                      (filter (quals_pass h (gss_dev_quals gss)) (pds_tuples (pds_src t)))
            \<and> task_rows_in t - task_rows_out t slots
              = of_nat (length (filter (\<lambda>tup. \<not> quals_pass h (gss_dev_quals gss) tup)
                                  (pds_tuples (pds_src t)))))
       \<and> gss_dev_quals gss' = gss_dev_quals gss \<and> base_proj gss' = base_proj gss"
proof -
  from run obtain st where p: "gpuscan_process_task ly env fb (gs_rtstat gss) gscan = Inr (0, st)"
    and ok: "errcode (task_kerror (ws_gscan st)) = StromError_Success"
    and t: "t = ws_gscan st"
    and d: "drain_task h (gss\<lparr>gs_rtstat := ws_rtstat st, curr_index := 0\<rparr>) t = Inr (slots, gss')"
    by (auto simp: complete_task_def bindE_def split: sum.splits if_splits prod.splits)
  let ?g = "gss\<lparr>gs_rtstat := ws_rtstat st, curr_index := 0\<rparr>"
  from process_task_cases [OF p ok]
  show ?thesis
  proof
    assume a: "cpu_fallback (ws_gscan st) = cpu_fallback gscan \<and>
      ws_rtstat st = (gs_rtstat gss)\<lparr>nitems_filtered := nitems_filtered (gs_rtstat gss)
         + (ucast (nitems_in (kern (ws_gscan st))) - ucast (nitems_out (kern (ws_gscan st))))\<rparr>"
    with nofb t have nf: "\<not> cpu_fallback t" by simp
    from drain_accelerated [OF nf d] have "gss' = ?g\<lparr>curr_index := curr_index gss'\<rparr>" .
    then have "gs_rtstat gss' = ws_rtstat st \<and> gss_dev_quals gss' = gss_dev_quals gss
        \<and> base_proj gss' = base_proj gss"
      by (metis (no_types, lifting) GpuScanState.select_convs(6,7,9) GpuScanState.surjective
          GpuScanState.update_convs(8,9))
    with a nf t show ?thesis by (simp add: task_rows_in_def task_rows_out_def)
  next
    assume b: "cpu_fallback (ws_gscan st) \<and> ws_rtstat st = gs_rtstat gss"
    with t have f: "cpu_fallback t" by simp
    have "drop (curr_index ?g) (pds_tuples (pds_src t)) = pds_tuples (pds_src t)" by simp
    from drain_fallback [OF f this, of h] d b
    have slots: "slots = map (fallback_slot h (base_proj gss))
                      (filter (quals_pass h (gss_dev_quals gss)) (pds_tuples (pds_src t)))"
      and g': "gss' = add_filtered (length (filter (\<lambda>tup. \<not> quals_pass h (gss_dev_quals gss) tup)
                         (pds_tuples (pds_src t))))
                 (?g\<lparr>curr_index := curr_index ?g + length (pds_tuples (pds_src t))\<rparr>)"
      by simp_all
    have rows: "task_rows_in t - task_rows_out t slots
        = of_nat (length (filter (\<lambda>tup. \<not> quals_pass h (gss_dev_quals gss) tup)
                            (pds_tuples (pds_src t))))"
      using f slots by (simp add: task_rows_in_def task_rows_out_def of_nat_filter_split)
    from g' b rows f slots show ?thesis by (simp add: add_filtered_def)
  qed
qed

text \<open>
  C1. After a scan over any list of fresh tasks that completes, the rows-filtered
  counter has grown by the sum over the tasks of rows in minus rows out (in the
  counter's 64-bit arithmetic): a task completed on the accelerated path added its
  \<^verbatim>\<open>nitems_in - nitems_out\<close>, and a task that fell back added one for each tuple of
  its source chunk that the qualifier rejected, which is the number of its tuples minus
  the number of slots returned.
\<close>

theorem scan_tasks_rows_filtered:
  assumes run: "scan_tasks ly env fb h gss tasks = Inr (dones, gss')"
    and fresh: "\<forall>t \<in> set tasks. \<not> cpu_fallback t"
  shows "nitems_filtered (gs_rtstat gss')
           = nitems_filtered (gs_rtstat gss)
             + sum_list (map (\<lambda>(t, slots). task_rows_in t - task_rows_out t slots) dones)
       \<and> (\<forall>(t, slots) \<in> set dones. cpu_fallback t \<longrightarrow>
            task_rows_in t - task_rows_out t slots
              = of_nat (length (filter (\<lambda>tup. \<not> quals_pass h (gss_dev_quals gss) tup)
                                  (pds_tuples (pds_src t)))))"
  using assms
proof (induction tasks arbitrary: gss dones)
  case Nil
  then show ?case by simp
next
  case (Cons gscan tasks)
  from Cons.prems(1) obtain t slots g1 ds where
    c: "complete_task ly env fb h gss gscan = Inr ((t, slots), g1)"
    and s: "scan_tasks ly env fb h g1 tasks = Inr (ds, gss')"
    and dn: "dones = (t, slots) # ds"
    by (auto simp: bindE_def split: sum.splits prod.splits)
  from Cons.prems(2) have nf: "\<not> cpu_fallback gscan" and rest: "\<forall>t \<in> set tasks. \<not> cpu_fallback t"
    by simp_all
  note ct = complete_task_rows_filtered [OF c nf]
  note ih = Cons.IH [OF s rest]
  from ct ih dn show ?case by (auto simp: algebra_simps)
qed

theorem scan_tasks_rows_filtered_witness:
  "\<exists>dones gss'.
     scan_tasks layout_sample gpu_env_sample True host_sample gss_quals_sample
        [task_sample (row_store 3 [[5], [6], [7]]) None,
         task_sample (block_store 4 10 2 [[0], [2], [3], [4]])
           (Some ((row_store 0 [])\<lparr>kds_length := 640\<rparr>))] = Inr (dones, gss')
     \<and> map (\<lambda>(t, slots). (cpu_fallback t, slots)) dones
         = [(False, [StoredTuple [5]]),
            (True, [StoredTuple [2], StoredTuple [3], StoredTuple [4]])]
     \<and> nitems_filtered (gs_rtstat gss') = 3
     \<and> nitems_filtered (gs_rtstat gss')
         = nitems_filtered (gs_rtstat gss_quals_sample)
           + sum_list (map (\<lambda>(t, slots). task_rows_in t - task_rows_out t slots) dones)"
proof -
  let ?tasks = "[task_sample (row_store 3 [[5], [6], [7]]) None,
         task_sample (block_store 4 10 2 [[0], [2], [3], [4]])
           (Some ((row_store 0 [])\<lparr>kds_length := 640\<rparr>))]"
  have ev: "map_sum id (\<lambda>(dones, gss). (map (\<lambda>(t, slots). (cpu_fallback t, slots)) dones,
                                   nitems_filtered (gs_rtstat gss)))
     (scan_tasks layout_sample gpu_env_sample True host_sample gss_quals_sample ?tasks)
    = Inr ([(False, [StoredTuple [5]]),
            (True, [StoredTuple [2], StoredTuple [3], StoredTuple [4]])], 3)"
    by (simp add: process_defs drain_defs sample_defs)
  then obtain dones gss' where
    run: "scan_tasks layout_sample gpu_env_sample True host_sample gss_quals_sample ?tasks
            = Inr (dones, gss')"
    and res: "map (\<lambda>(t, slots). (cpu_fallback t, slots)) dones
         = [(False, [StoredTuple [5]]),
            (True, [StoredTuple [2], StoredTuple [3], StoredTuple [4]])]"
      "nitems_filtered (gs_rtstat gss') = 3"
    by (cases "scan_tasks layout_sample gpu_env_sample True host_sample gss_quals_sample ?tasks")
      auto
  have fresh: "\<forall>t \<in> set ?tasks. \<not> cpu_fallback t"
    by (simp add: task_sample_def)
  from scan_tasks_rows_filtered [OF run fresh]
  have total: "nitems_filtered (gs_rtstat gss')
      = nitems_filtered (gs_rtstat gss_quals_sample)
        + sum_list (map (\<lambda>(t, slots). task_rows_in t - task_rows_out t slots) dones)"
    by (rule conjunct1)
  show ?thesis
    by (intro exI [where x = dones] exI [where x = gss'] conjI) (rule run res total)+
qed

subsection \<open>Classification of the kernel status\<close>

text \<open>
  C3. With a driver whose calls succeed, the executor returns 0 and classifies the
  status the device program left: on success the task's error code is
  \<^verbatim>\<open>StromError_Success\<close> and \<^verbatim>\<open>cpu_fallback\<close> is untouched; on
  \<^verbatim>\<open>StromError_CpuReCheck\<close> or \<^verbatim>\<open>StromError_DataStoreNoSpace\<close> with the CPU
  fallback enabled the task's error is cleared, \<^verbatim>\<open>cpu_fallback\<close> is set, and the
  task completes for the caller; on every other code the error stays in
  \<^verbatim>\<open>task.kerror\<close>, \<^verbatim>\<open>cpu_fallback\<close> is untouched, and the task fails the query.
\<close>

theorem process_task_error_classification:
  fixes h :: "('v, 'tup) host_executor"
  assumes drv: "\<forall>calls c. driver env calls c = CUDA_SUCCESS"
    and fmt: "kern_fname_of (kds_format (pds_src gscan)) = Inr f"
    and dst: "with_nvme_strom gscan \<longrightarrow> pds_dst gscan \<noteq> None"
    and kd: "kd = kern_after env f gscan"
    and ok: "errcode (kern_kerror kd) = StromError_Success \<longrightarrow>
               (if pds_dst gscan \<noteq> None then (0 < nitems_out kd \<longrightarrow> 0 < extra_size kd)
                else extra_size kd = 0)"
  shows "\<exists>st. gpuscan_process_task ly env fb (gs_rtstat gss) gscan = Inr (0, st)
      \<and> (errcode (kern_kerror kd) = StromError_Success \<longrightarrow>
            errcode (task_kerror (ws_gscan st)) = StromError_Success
            \<and> cpu_fallback (ws_gscan st) = cpu_fallback gscan)
      \<and> (recoverable fb (errcode (kern_kerror kd)) \<longrightarrow>
            task_kerror (ws_gscan st) = kern_errorbuf_zero \<and> cpu_fallback (ws_gscan st)
            \<and> (\<exists>r. complete_task ly env fb h gss gscan = Inr r))
      \<and> (errcode (kern_kerror kd) \<noteq> StromError_Success
           \<and> \<not> recoverable fb (errcode (kern_kerror kd)) \<longrightarrow>
            task_kerror (ws_gscan st) = kern_kerror kd
            \<and> cpu_fallback (ws_gscan st) = cpu_fallback gscan
            \<and> complete_task ly env fb h gss gscan = Inl (ElogError ''GPU kernel error''))"
proof -
  let ?rt = "gs_rtstat gss"
  let ?st0 = "\<lparr>ws_gscan = gscan, ws_rtstat = ?rt, ws_calls = [], ws_m_kds_src = Ptr_NULL\<rparr>"
  let ?st1 = "effect (Call_cuModuleGetFunction f) ?st0"
  have l: "process_lookup env ?st0 = Inr (f, ?st1)"
    using process_lookup_ok [OF drv, of ?st0 f] fmt by simp
  obtain st2 where a: "process_alloc env ?st1 = Inr (Next st2)"
    and a2: "ws_gscan st2 = gscan" "ws_rtstat st2 = ?rt"
    using process_alloc_ok [OF drv, of ?st1] by auto
  obtain st3 where e: "process_enqueue env f st2 = Inr st3"
    and e2: "ws_rtstat st3 = ?rt"
      "ws_gscan st3 = gscan\<lparr>kern := kd, pds_dst := map_option (dst_after env f gscan) (pds_dst gscan)\<rparr>"
    using process_enqueue_ok [OF drv, of f st2] a2 kd by auto
  have pre: "gpuscan_process_task ly env fb ?rt gscan =
      bindE (process_status ly env fb st3) (\<lambda>fl.
        case fl of
          Goto_out_of_resource st \<Rightarrow> Inr (out_of_resource 0 st)
        | Next st \<Rightarrow> bindE (process_results env st) (\<lambda>st. Inr (out_of_resource 0 st)))"
    by (simp add: gpuscan_process_task_def l a e bindE_Inr)
  have not_rec: "errcode (kern_kerror kd) = StromError_Success \<Longrightarrow>
      \<not> recoverable fb (errcode (kern_kerror kd))"
    by (simp add: recoverable_def)
  consider (success) "errcode (kern_kerror kd) = StromError_Success"
    | (fallback) "recoverable fb (errcode (kern_kerror kd))"
    | (fatal) "errcode (kern_kerror kd) \<noteq> StromError_Success"
        "\<not> recoverable fb (errcode (kern_kerror kd))"
    by blast
  then show ?thesis
  proof cases
    case success
    let ?st4 = "st3\<lparr>ws_gscan := (ws_gscan st3)\<lparr>task_kerror := kern_kerror kd\<rparr>,
                   ws_rtstat := (ws_rtstat st3)\<lparr>nitems_filtered := nitems_filtered (ws_rtstat st3)
                      + (ucast (nitems_in kd) - ucast (nitems_out kd))\<rparr>\<rparr>"
    have s: "process_status ly env fb st3 = Inr (Next ?st4)"
      using success e2 by (simp add: process_status_def Let_def)
    have "if pds_dst (ws_gscan ?st4) \<noteq> None
          then (0 < nitems_out (kern (ws_gscan ?st4)) \<longrightarrow> 0 < extra_size (kern (ws_gscan ?st4)))
          else extra_size (kern (ws_gscan ?st4)) = 0"
      using ok success e2 by (simp split: if_splits)
    from process_results_ok [OF drv this] obtain st5
      where r: "process_results env ?st4 = Inr st5" and r2: "ws_gscan st5 = ws_gscan ?st4"
      by auto
    have run: "gpuscan_process_task ly env fb ?rt gscan = Inr (0, snd (out_of_resource 0 st5))"
      using pre s r by (simp add: bindE_def out_of_resource_def Let_def)
    show ?thesis
      using run r2 e2 success not_rec [OF success]
      by (intro exI [where x = "snd (out_of_resource 0 st5)"]) simp
  next
    case fallback
    then have code: "errcode (kern_kerror kd) \<noteq> StromError_Success" and fb: fb
      and rc: "errcode (kern_kerror kd) = StromError_CpuReCheck
          \<or> errcode (kern_kerror kd) = StromError_DataStoreNoSpace"
      by (auto simp: recoverable_def)
    let ?st4 = "st3\<lparr>ws_gscan := (ws_gscan st3)\<lparr>task_kerror := kern_errorbuf_zero, cpu_fallback := True\<rparr>\<rparr>"
    have "with_nvme_strom (ws_gscan ?st4) \<longrightarrow> pds_dst (ws_gscan ?st4) \<noteq> None"
      using dst e2 by simp
    from process_writeback_ok [OF drv this, of ly] obtain st5
      where w: "process_writeback ly env ?st4 = Inr st5" and w2: "ws_gscan st5 = ws_gscan ?st4"
        "ws_rtstat st5 = ws_rtstat ?st4"
      by auto
    have s: "process_status ly env fb st3 = Inr (Goto_out_of_resource st5)"
      using code fb rc e2 w by (auto simp: process_status_def Let_def bindE_def)
    have run: "gpuscan_process_task ly env fb ?rt gscan = Inr (0, snd (out_of_resource 0 st5))"
      using pre s by (simp add: bindE_def out_of_resource_def Let_def)
    let ?t = "ws_gscan (snd (out_of_resource 0 st5))"
    have t: "cpu_fallback ?t" "task_kerror ?t = kern_errorbuf_zero"
      using w2 by simp_all
    have "\<exists>r. drain_task h (gss\<lparr>gs_rtstat := ws_rtstat (snd (out_of_resource 0 st5)),
                 curr_index := 0\<rparr>) ?t = Inr r"
      using drain_fallback [OF t(1), of _ _ h] by blast
    then have "\<exists>r. complete_task ly env fb h gss gscan = Inr r"
      using run t by (auto simp: complete_task_def bindE_def kern_errorbuf_zero_def)
    then show ?thesis
      using run t code fallback
      by (intro exI [where x = "snd (out_of_resource 0 st5)"]) simp
  next
    case fatal
    have s: "process_status ly env fb st3
        = Inr (Goto_out_of_resource (st3\<lparr>ws_gscan := (ws_gscan st3)\<lparr>task_kerror := kern_kerror kd\<rparr>\<rparr>))"
      using fatal e2 by (auto simp: process_status_def Let_def recoverable_def)
    have run: "gpuscan_process_task ly env fb ?rt gscan
        = Inr (0, snd (out_of_resource 0 (st3\<lparr>ws_gscan := (ws_gscan st3)\<lparr>task_kerror := kern_kerror kd\<rparr>\<rparr>)))"
      using pre s by (simp add: bindE_def out_of_resource_def Let_def)
    have "complete_task ly env fb h gss gscan = Inl (ElogError ''GPU kernel error'')"
      using run fatal e2 by (simp add: complete_task_def bindE_def)
    then show ?thesis
      using run fatal e2
      by (intro exI [where x = "snd (out_of_resource 0
            (st3\<lparr>ws_gscan := (ws_gscan st3)\<lparr>task_kerror := kern_kerror kd\<rparr>\<rparr>))"]) simp
  qed
qed

theorem process_task_error_classification_witness:
  "(\<exists>st. gpuscan_process_task layout_sample gpu_env_sample True (gs_rtstat gss_quals_sample)
            (task_sample (row_store 3 [[5], [6], [7]]) None) = Inr (0, st)
        \<and> errcode (task_kerror (ws_gscan st)) = StromError_Success
        \<and> \<not> cpu_fallback (ws_gscan st))
   \<and> (\<exists>st. gpuscan_process_task layout_sample gpu_env_sample True (gs_rtstat gss_quals_sample)
            (task_sample (block_store 4 10 2 [[0], [2], [3], [4]])
               (Some ((row_store 0 [])\<lparr>kds_length := 640\<rparr>))) = Inr (0, st)
        \<and> task_kerror (ws_gscan st) = kern_errorbuf_zero \<and> cpu_fallback (ws_gscan st)
        \<and> (\<exists>r. complete_task layout_sample gpu_env_sample True host_sample gss_quals_sample
                  (task_sample (block_store 4 10 2 [[0], [2], [3], [4]])
                     (Some ((row_store 0 [])\<lparr>kds_length := 640\<rparr>))) = Inr r))
   \<and> (\<exists>st. gpuscan_process_task layout_sample gpu_env_sample False (gs_rtstat gss_quals_sample)
            (task_sample (block_store 4 10 2 [[0], [2], [3], [4]])
               (Some ((row_store 0 [])\<lparr>kds_length := 640\<rparr>))) = Inr (0, st)
        \<and> errcode (task_kerror (ws_gscan st)) = StromError_CpuReCheck
        \<and> \<not> cpu_fallback (ws_gscan st)
        \<and> complete_task layout_sample gpu_env_sample False host_sample gss_quals_sample
              (task_sample (block_store 4 10 2 [[0], [2], [3], [4]])
                 (Some ((row_store 0 [])\<lparr>kds_length := 640\<rparr>)))
            = Inl (ElogError ''GPU kernel error''))"
proof -
  let ?row = "task_sample (row_store 3 [[5], [6], [7]]) None"
  let ?blk = "task_sample (block_store 4 10 2 [[0], [2], [3], [4]])
               (Some ((row_store 0 [])\<lparr>kds_length := 640\<rparr>))"
  have drv: "\<forall>calls c. driver gpu_env_sample calls c = CUDA_SUCCESS"
    by (simp add: gpu_env_sample_def)
  have f_row: "kern_fname_of (kds_format (pds_src ?row)) = Inr ''gpuscan_exec_quals_row''"
    by (simp add: kern_fname_of_def sample_defs)
  have f_blk: "kern_fname_of (kds_format (pds_src ?blk)) = Inr ''gpuscan_exec_quals_block''"
    by (simp add: kern_fname_of_def sample_defs)
  have d_row: "with_nvme_strom ?row \<longrightarrow> pds_dst ?row \<noteq> None"
    by (simp add: sample_defs)
  have d_blk: "with_nvme_strom ?blk \<longrightarrow> pds_dst ?blk \<noteq> None"
    by (simp add: sample_defs)
  let ?krow = "kern_after gpu_env_sample ''gpuscan_exec_quals_row'' ?row"
  let ?kblk = "kern_after gpu_env_sample ''gpuscan_exec_quals_block'' ?blk"
  have c_row: "errcode (kern_kerror ?krow) = StromError_Success"
    by (simp add: sample_defs kern_errorbuf_zero_def)
  have c_blk: "errcode (kern_kerror ?kblk) = StromError_CpuReCheck"
    by (simp add: sample_defs)
  have ok_row: "errcode (kern_kerror ?krow) = StromError_Success \<longrightarrow>
      (if pds_dst ?row \<noteq> None then (0 < nitems_out ?krow \<longrightarrow> 0 < extra_size ?krow)
       else extra_size ?krow = 0)"
    by (simp add: sample_defs)
  have ok_blk: "errcode (kern_kerror ?kblk) = StromError_Success \<longrightarrow>
      (if pds_dst ?blk \<noteq> None then (0 < nitems_out ?kblk \<longrightarrow> 0 < extra_size ?kblk)
       else extra_size ?kblk = 0)"
    by (simp add: c_blk)
  have fresh: "\<not> cpu_fallback ?row" "\<not> cpu_fallback ?blk"
    by (simp_all add: task_sample_def)
  from process_task_error_classification [OF drv f_row d_row refl ok_row,
      of layout_sample True gss_quals_sample host_sample] c_row fresh
  have 1: "\<exists>st. gpuscan_process_task layout_sample gpu_env_sample True (gs_rtstat gss_quals_sample)
            ?row = Inr (0, st)
        \<and> errcode (task_kerror (ws_gscan st)) = StromError_Success
        \<and> \<not> cpu_fallback (ws_gscan st)"
    by auto
  from process_task_error_classification [OF drv f_blk d_blk refl ok_blk,
      of layout_sample True gss_quals_sample host_sample] c_blk
  have 2: "\<exists>st. gpuscan_process_task layout_sample gpu_env_sample True (gs_rtstat gss_quals_sample)
            ?blk = Inr (0, st)
        \<and> task_kerror (ws_gscan st) = kern_errorbuf_zero \<and> cpu_fallback (ws_gscan st)
        \<and> (\<exists>r. complete_task layout_sample gpu_env_sample True host_sample gss_quals_sample
                  ?blk = Inr r)"
    by (auto simp: recoverable_def)
  from process_task_error_classification [OF drv f_blk d_blk refl ok_blk,
      of layout_sample False gss_quals_sample host_sample] c_blk fresh
  have 3: "\<exists>st. gpuscan_process_task layout_sample gpu_env_sample False (gs_rtstat gss_quals_sample)
            ?blk = Inr (0, st)
        \<and> errcode (task_kerror (ws_gscan st)) = StromError_CpuReCheck
        \<and> \<not> cpu_fallback (ws_gscan st)
        \<and> complete_task layout_sample gpu_env_sample False host_sample gss_quals_sample ?blk
            = Inl (ElogError ''GPU kernel error'')"
    by (auto simp: recoverable_def)
  from 1 2 3 show ?thesis by (intro conjI)
qed

subsection \<open>The write-back before a fallback\<close>

lemma create_block_task_sample:
  "gpuscan_create_task layout_sample task_env_sample (gss_sample False 8)
       (block_store 4 10 2 [[0], [2], [3], [4]])
     = Inr (task_sample (block_store 4 10 2 [[0], [2], [3], [4]])
              (Some ((row_store 0 [])\<lparr>kds_length := 640\<rparr>)))"
  by (simp add: gpuscan_create_task_def dest_length_def sample_defs bindE_def
      dbl_eval STROMALIGN_def TYPEALIGN_def kern_errorbuf_zero_def kern_resultbuf_zero_def)

text \<open>
  C2. The task factory makes a task from a block-format chunk of four blocks, two of
  them not in host memory, so \<^verbatim>\<open>with_nvme_strom\<close> is set; the device program ends
  with \<^verbatim>\<open>StromError_CpuReCheck\<close> and the CPU fallback is enabled. The executor
  returns with the task flagged for fallback, still under the bulk-transfer strategy
  and with two blocks of the source chunk uncached, and the calls it made contain no
  copy from the device to the host: the write-back is skipped.
\<close>

theorem writeback_skipped:
  "map_sum id (\<lambda>(retval, st). (retval, cpu_fallback (ws_gscan st), with_nvme_strom (ws_gscan st),
                  nblocks_uncached (pds_src (ws_gscan st)), ws_calls st))
     (bindE (gpuscan_create_task layout_sample task_env_sample (gss_sample False 8)
               (block_store 4 10 2 [[0], [2], [3], [4]]))
        (gpuscan_process_task layout_sample gpu_env_sample True
           \<lparr>nitems_filtered = 0, ccache_count = 0\<rparr>))
   = Inr (0, True, True, 2,
       [Call_cuModuleGetFunction ''gpuscan_exec_quals_block'',
        Call_gpuMemAllocIOMap 65536,
        Call_cuMemPrefetchAsync Prefetch_kern_to_device,
        Call_gpuMemCopyFromSSD,
        Call_cuMemPrefetchAsync Prefetch_kds_dst_head_to_device,
        Call_gpuOptimalBlockSize,
        Call_cuLaunchKernel ''gpuscan_exec_quals_block'',
        Call_cuEventRecord,
        Call_cuEventSynchronize,
        Call_gpuMemFree])"
  unfolding create_block_task_sample bindE_Inr
  by (simp add: process_defs sample_defs)

text \<open>
  The condition of the write-back reads the counter of the destination chunk, the
  size of the copy that of the source chunk: with a destination chunk that claims one
  uncached block, the two blocks of the source chunk are copied back.
\<close>

lemma writeback_reads_destination_counter:
  "map_sum id (\<lambda>(retval, st). ws_calls st)
     (gpuscan_process_task layout_sample gpu_env_sample True \<lparr>nitems_filtered = 0, ccache_count = 0\<rparr>
        (task_sample (block_store 4 10 2 [[0], [2], [3], [4]])
           (Some ((row_store 0 [])\<lparr>kds_length := 640, nblocks_uncached := 1\<rparr>))))
   = Inr [Call_cuModuleGetFunction ''gpuscan_exec_quals_block'',
        Call_gpuMemAllocIOMap 65536,
        Call_cuMemPrefetchAsync Prefetch_kern_to_device,
        Call_gpuMemCopyFromSSD,
        Call_cuMemPrefetchAsync Prefetch_kds_dst_head_to_device,
        Call_gpuOptimalBlockSize,
        Call_cuLaunchKernel ''gpuscan_exec_quals_block'',
        Call_cuEventRecord,
        Call_cuEventSynchronize,
        Call_cuMemcpyDtoHAsync 16384,
        Call_cuEventRecord,
        Call_cuEventSynchronize,
        Call_gpuMemFree]"
  by (simp add: process_defs sample_defs)

subsection \<open>The predicate and projection of the fallback\<close>

lemma fixup_eval:
  shows "fixup_varnode_to_origin e tlist = Inr e' \<Longrightarrow>
      ExecEvalExpr h (StoredTuple tup) e' = ExecEvalExpr h (device_row h tlist tup) e"
    and "fixup_varnode_list es tlist = Inr es' \<Longrightarrow>
      map (ExecEvalExpr h (StoredTuple tup)) es' = map (ExecEvalExpr h (device_row h tlist tup)) es"
proof (induction e tlist and es tlist arbitrary: e' and es'
    rule: fixup_varnode_to_origin_fixup_varnode_list.induct)
  case (1 tlist)
  then show ?case by simp
next
  case (2 varno varattno vartype tlist)
  then show ?case
    by (auto simp: device_row_def ExecProject_def slot_getattr_def split: if_splits)
next
  case (3 tag args tlist)
  then show ?case
    by (auto simp: bindE_def split: sum.splits)
next
  case (4 tlist)
  then show ?case by simp
next
  case (5 a args tlist)
  then show ?case
    by (auto simp: bindE_def split: sum.splits)
qed

lemma fixup_list_length:
  "fixup_varnode_list es tlist = Inr es' \<Longrightarrow> length es' = length es"
  by (induction es arbitrary: es') (auto simp: bindE_def split: sum.splits)

lemma make_ands_explicit_eval:
  assumes "fixup_varnode_list es tlist = Inr es'"
  shows "ExecEvalExpr h (StoredTuple tup) (make_ands_explicit es')
       = ExecEvalExpr h (device_row h tlist tup) (make_ands_explicit es)"
proof -
  from fixup_eval(2) [OF assms]
  have m: "map (ExecEvalExpr h (StoredTuple tup)) es' = map (ExecEvalExpr h (device_row h tlist tup)) es" .
  from fixup_list_length [OF assms] have l: "length es' = length es" .
  show ?thesis
  proof (cases es)
    case Nil
    with l show ?thesis by (simp add: make_ands_explicit_def)
  next
    case (Cons a as)
    note c1 = this
    from l c1 obtain a' as' where c1': "es' = a' # as'" by (cases es') auto
    show ?thesis
    proof (cases as)
      case Nil
      with l c1 c1' have "as' = []" by simp
      with m c1 c1' Nil show ?thesis by (simp add: make_ands_explicit_def)
    next
      case (Cons b bs)
      with l c1 c1' obtain b' bs' where "as' = b' # bs'" by (cases as') auto
      with m c1 c1' Cons show ?thesis by (simp add: make_ands_explicit_def)
    qed
  qed
qed

text \<open>
  C4. For a task flagged for CPU fallback, under the state that \<^verbatim>\<open>ExecInitGpuScan\<close>
  set up: the qualifier of the fallback is made of the device qualifiers after
  \<^verbatim>\<open>fixup_varnode_to_origin\<close>, and on every stored tuple of the relation it has the
  value that the device qualifiers have on the device-projected image of that tuple
  (the references to projected columns are mapped back to the relation); the projection
  is the non-junk head of \<^verbatim>\<open>custom_scan_tlist\<close>, or none without device projection;
  draining the task returns, in order, the projection of exactly those tuples of the
  source chunk that pass the qualifier; and the destination chunk plays no part.
\<close>

theorem fallback_reevaluates_source_chunk:
  fixes h :: "('v, 'tup) host_executor"
  assumes init: "ExecInitGpuScan rel_natts params_length rtstat cscan = Inr gss"
    and fb: "cpu_fallback gscan"
  shows "\<exists>gs_info dev_quals_raw gss'.
      deform_gpuscan_info cscan = Inr gs_info
    \<and> fixup_varnode_list (dev_quals gs_info) (custom_scan_tlist cscan) = Inr dev_quals_raw
    \<and> gss_dev_quals gss = ExecInitExpr (make_ands_explicit dev_quals_raw)
    \<and> (\<forall>tup. ExecEvalExpr h (StoredTuple tup) (make_ands_explicit dev_quals_raw)
             = ExecEvalExpr h (device_row h (custom_scan_tlist cscan) tup)
                 (make_ands_explicit (dev_quals gs_info)))
    \<and> base_proj gss = (if custom_scan_tlist cscan = [] then None
                        else Some (takeWhile (\<lambda>tle. \<not> resjunk tle) (custom_scan_tlist cscan)))
    \<and> drain_task h gss gscan
        = Inr (map (fallback_slot h (base_proj gss))
                 (filter (quals_pass h (gss_dev_quals gss)) (pds_tuples (pds_src gscan))), gss')
    \<and> (\<forall>dst. drain_task h gss (gscan\<lparr>pds_dst := dst\<rparr>) = drain_task h gss gscan)"
proof -
  from init obtain gs_info raw where
    d: "deform_gpuscan_info cscan = Inr gs_info"
    and f: "fixup_varnode_list (dev_quals gs_info) (custom_scan_tlist cscan) = Inr raw"
    and g: "gss_dev_quals gss = ExecInitExpr (make_ands_explicit raw)"
      "base_proj gss = (if custom_scan_tlist cscan = [] then None
                        else Some (takeWhile (\<lambda>tle. \<not> resjunk tle) (custom_scan_tlist cscan)))"
      "curr_index gss = 0"
    by (auto simp: ExecInitGpuScan_def bindE_def Let_def split: sum.splits)
  have dr: "drop (curr_index gss) (pds_tuples (pds_src gscan)) = pds_tuples (pds_src gscan)"
    using g by simp
  have dd: "drain_task h gss (gscan\<lparr>pds_dst := dst\<rparr>) = drain_task h gss gscan" for dst
  proof -
    have "cpu_fallback (gscan\<lparr>pds_dst := dst\<rparr>)" using fb by simp
    from drain_fallback [OF this, of gss _ h] drain_fallback [OF fb dr, of h] dr
    show ?thesis by simp
  qed
  show ?thesis
    using d f g(1,2) make_ands_explicit_eval [OF f, of h] drain_fallback [OF fb dr, of h] dd
    by (intro exI conjI allI) auto
qed


lemma init_sample:
  "ExecInitGpuScan 2 40 \<lparr>nitems_filtered = 0, ccache_count = 0\<rparr> cscan_sample =
    Inr \<lparr>dev_projection = True, gss_proj_tuple_sz = 16,
           gss_proj_extra_sz = 0, scan_natts = 2, kern_params_length = 40,
           gss_dev_quals = Some (Node ''ge2'' [Var 1 2 23]),
           base_proj = Some [\<lparr>tle_expr = Var 1 2 23, resjunk = False\<rparr>,
                             \<lparr>tle_expr = Var 1 1 23, resjunk = False\<rparr>],
           curr_index = 0,
           gs_rtstat = \<lparr>nitems_filtered = 0, ccache_count = 0\<rparr>\<rparr>"
  by (simp add: ExecInitGpuScan_def cscan_sample_def deform_gpuscan_info_def form_gpuscan_info_def
      bindE_def list_nth_def strVal_def intVal_def listVal_def makeString_def makeInteger_def
      lappend_def INDEX_VAR_def make_ands_explicit_def ExecInitExpr_def ucast_long_cl_uint)

theorem fallback_reevaluates_source_chunk_witness:
  "\<exists>gss gss'.
     ExecInitGpuScan 2 40 \<lparr>nitems_filtered = 0, ccache_count = 0\<rparr> cscan_sample = Inr gss
     \<and> gss_dev_quals gss = Some (Node ''ge2'' [Var 1 2 23])
     \<and> drain_task host_sample gss
          ((task_sample (block_store 3 10 0 [[9, 0], [0, 7], [5, 5]])
              (Some ((row_store 0 [])\<lparr>kds_length := 640\<rparr>)))\<lparr>cpu_fallback := True\<rparr>)
         = Inr ([VirtualTuple [7, 0], VirtualTuple [5, 5]], gss')"
proof -
  let ?t = "(task_sample (block_store 3 10 0 [[9, 0], [0, 7], [5, 5]])
              (Some ((row_store 0 [])\<lparr>kds_length := 640\<rparr>)))\<lparr>cpu_fallback := True\<rparr>"
  let ?gss = "\<lparr>dev_projection = True, gss_proj_tuple_sz = 16,
           gss_proj_extra_sz = 0, scan_natts = 2, kern_params_length = 40,
           gss_dev_quals = Some (Node ''ge2'' [Var 1 2 23]),
           base_proj = Some [\<lparr>tle_expr = Var 1 2 23, resjunk = False\<rparr>,
                             \<lparr>tle_expr = Var 1 1 23, resjunk = False\<rparr>],
           curr_index = 0,
           gs_rtstat = \<lparr>nitems_filtered = 0, ccache_count = 0\<rparr>\<rparr>"
  have fb: "cpu_fallback ?t" by simp
  from fallback_reevaluates_source_chunk [OF init_sample fb, of host_sample]
  obtain gss' where
    "drain_task host_sample ?gss ?t
      = Inr (map (fallback_slot host_sample (base_proj ?gss))
               (filter (quals_pass host_sample (gss_dev_quals ?gss)) (pds_tuples (pds_src ?t))), gss')"
    by blast
  then have "drain_task host_sample ?gss ?t = Inr ([VirtualTuple [7, 0], VirtualTuple [5, 5]], gss')"
    by (simp add: fallback_slot_def quals_pass_def ExecQual_def ExecProject_def slot_getattr_def
        sample_defs)
  with init_sample show ?thesis by (intro exI [where x = ?gss] exI [where x = gss']) simp
qed

subsection \<open>The code generator\<close>





















text \<open>
  C7. For a \<^verbatim>\<open>NULL\<close> qualifier the generator does not consult the walker: it appends
  the two functions with empty declarations, and the body of each is the single
  statement \<^verbatim>\<open>return true;\<close>.
\<close>

theorem codegen_null_quals:
  "codegen_gpuscan_quals env kern_buf context scanrelid NullExpr =
     Inr (kern_buf @ concat
            [line ''STATIC_FUNCTION(cl_bool)'',
             line ''gpuscan_quals_eval(kern_context *kcxt,'',
             line ''                   kern_data_store *kds,'',
             line ''                   ItemPointerData *t_self,'',
             line ''                   HeapTupleHeaderData *htup)'',
             line ''{'',
             line ''  void *addr __attribute__((unused));'',
             line [],
             line ''  return true;'',
             line ''}'',
             line [],
             line ''STATIC_FUNCTION(cl_bool)'',
             line ''gpuscan_quals_eval_column(kern_context *kcxt,'',
             line ''                          kern_data_store *kds,'',
             line ''                          cl_uint row_index)'',
             line ''{'',
             line ''  void *addr __attribute__((unused));'',
             line [],
             line ''  return true;'',
             line ''}'',
             line []], context)"
  by (simp add: codegen_gpuscan_quals_def gpuscan_quals_body_def bindE_def render_def)






text \<open>
  When the entries of \<^verbatim>\<open>used_vars\<close> are for distinct attributes, their number is the
  number of attributes referenced.
\<close>

lemma used_vars_distinct_attributes:
  "distinct (map varattno vars) \<Longrightarrow> card (varattno ` set vars) = length vars"
  using distinct_card [of "map varattno vars"] by simp





subsection \<open>The shared block cursor\<close>

lemmas nextpage_defs = gpuscan_parallel_nextpage_def nextpage_startblock.simps
  nextpage_nr_blocks_def nextpage_finish_def InvalidBlockNumber_def
  nextpage_env_sample_def scan_sample_def layout_sample_def

text \<open>
  The cut at the segment boundary, on natural numbers: the number of blocks stays
  positive, does not grow, and the last block is in the segment of the first.
\<close>

lemma seg_cut:
  fixes P N R :: nat
  assumes N: "0 < N" "N < R"
  defines "n \<equiv> (if P div R \<noteq> (P + N - 1) div R then R - P mod R else N)"
  shows "0 < n \<and> n \<le> N \<and> (P + n - 1) div R = P div R"
proof (cases "P div R = (P + N - 1) div R")
  case True
  with N show ?thesis by (simp add: n_def)
next
  case False
  have R: "0 < R" using N by simp
  have n: "n = R - P mod R" using False by (simp add: n_def)
  define q where "q = P div R"
  define r where "r = P mod R"
  have P: "P = q * R + r" by (simp add: q_def r_def)
  have r: "r < R" using R by (simp add: r_def)
  have "P div R \<le> (P + N - 1) div R" using N by (intro div_le_mono) simp
  with False have "Suc q \<le> (P + N - 1) div R" by (simp add: q_def)
  then have "Suc q * R \<le> P + N - 1"
    using R by (simp add: less_eq_div_iff_mult_less_eq)
  then have "q * R + R \<le> q * R + r + N - 1" by (simp add: P)
  then have le: "R - r \<le> N - 1" using N by arith
  have pos: "0 < R - r" using r by simp
  have "P + (R - r) - 1 = (R - 1) + q * R" using r by (simp add: P)
  moreover have "((R - 1) + q * R) div R = q"
  proof -
    have "((R - 1) + q * R) div R = (R - 1) div R + q" using div_mult_self1 [of R "R - 1" q] R by (simp add: ac_simps)
    also have "(R - 1) div R = 0" using R by simp
    finally show ?thesis by simp
  qed
  ultimately have "(P + (R - r) - 1) div R = q" by simp
  with le pos N n show ?thesis by (simp add: q_def r_def)
qed

lemma unat_add_small:
  fixes p n :: "32 word"
  assumes "unat p + unat n < 2 ^ 32"
  shows "unat (p + n) = unat p + unat n"
  using assms unat_add_lem [of p n] by simp

text \<open>
  As long as \<^verbatim>\<open>page + nr_blocks\<close> does not wrap around in 32 bits, the three cuts leave
  a positive number of blocks, within the segment of \<^verbatim>\<open>page\<close>, within the relation and,
  for a cursor below the start block, not beyond the start block.
\<close>

lemma nextpage_nr_blocks_no_wrap:
  fixes page nblocks startblock nr_blocks :: "32 word"
  assumes page: "page < nblocks"
    and nr: "0 < nr_blocks" "nr_blocks < RELSEG_SIZE ly"
    and nowrap: "unat page + unat nr_blocks < 2 ^ 32"
  defines "n \<equiv> nextpage_nr_blocks ly nblocks startblock page nr_blocks"
  shows "0 < n \<and> n \<le> nr_blocks
     \<and> (unat page + unat n - 1) div unat (RELSEG_SIZE ly) = unat page div unat (RELSEG_SIZE ly)
     \<and> unat page + unat n \<le> unat nblocks
     \<and> (page < startblock \<longrightarrow> unat page + unat n \<le> unat startblock)"
proof -
  define n1 where "n1 = (if page div RELSEG_SIZE ly \<noteq> (page + nr_blocks - 1) div RELSEG_SIZE ly
                      then RELSEG_SIZE ly - page mod RELSEG_SIZE ly else nr_blocks)"
  define n2 where "n2 = (if nblocks < page + n1 then nblocks - page else n1)"
  have n: "n = (if page < startblock \<and> startblock \<le> page + n2 then startblock - page else n2)"
    by (simp add: n_def nextpage_nr_blocks_def n1_def n2_def Let_def)
  have N: "0 < unat nr_blocks" "unat nr_blocks < unat (RELSEG_SIZE ly)"
    using nr by (simp_all add: word_less_nat_alt)
  have PB: "unat page < unat nblocks" using page by (simp add: word_less_nat_alt)
  have s: "unat (page + nr_blocks) = unat page + unat nr_blocks"
    using nowrap by (rule unat_add_small)
  have "page + nr_blocks \<noteq> 0" using s N by (metis add_is_0 less_numeral_extra(3) unat_0)
  then have s1: "unat (page + nr_blocks - 1) = unat page + unat nr_blocks - 1"
    by (simp add: unat_minus_one s)
  have c1: "(page div RELSEG_SIZE ly \<noteq> (page + nr_blocks - 1) div RELSEG_SIZE ly)
      = (unat page div unat (RELSEG_SIZE ly) \<noteq> (unat page + unat nr_blocks - 1) div unat (RELSEG_SIZE ly))"
    by (simp add: word_unat_eq_iff unat_div s1)
  have "page mod RELSEG_SIZE ly \<le> RELSEG_SIZE ly" using N
    by (simp add: word_le_nat_alt unat_mod) 
  then have m: "unat (RELSEG_SIZE ly - page mod RELSEG_SIZE ly) = unat (RELSEG_SIZE ly) - unat page mod unat (RELSEG_SIZE ly)"
    by (simp add: unat_sub unat_mod)
  have u1: "unat n1 = (if unat page div unat (RELSEG_SIZE ly) \<noteq> (unat page + unat nr_blocks - 1) div unat (RELSEG_SIZE ly)
                      then unat (RELSEG_SIZE ly) - unat page mod unat (RELSEG_SIZE ly) else unat nr_blocks)"
    by (simp add: n1_def c1 m)
  from seg_cut [OF N, of "unat page"] u1
  have n1: "0 < unat n1" "unat n1 \<le> unat nr_blocks"
      "(unat page + unat n1 - 1) div unat (RELSEG_SIZE ly) = unat page div unat (RELSEG_SIZE ly)"
    by simp_all
  have t: "unat (page + n1) = unat page + unat n1"
    using nowrap n1 by (intro unat_add_small) simp
  have c2: "(nblocks < page + n1) = (unat nblocks < unat page + unat n1)"
    by (simp add: word_less_nat_alt t)
  have d2: "unat (nblocks - page) = unat nblocks - unat page"
    using page by (simp add: unat_sub)
  have u2: "unat n2 = (if unat nblocks < unat page + unat n1 then unat nblocks - unat page
                       else unat n1)"
    by (simp add: n2_def c2 d2)
  have n2: "0 < unat n2" "unat n2 \<le> unat n1" "unat page + unat n2 \<le> unat nblocks"
    using u2 n1 PB by (auto split: if_splits)
  have seg2: "(unat page + unat n2 - 1) div unat (RELSEG_SIZE ly) = unat page div unat (RELSEG_SIZE ly)"
  proof (rule antisym)
    have "(unat page + unat n2 - 1) div unat (RELSEG_SIZE ly) \<le> (unat page + unat n1 - 1) div unat (RELSEG_SIZE ly)"
      using n2 by (intro div_le_mono) simp
    also have "\<dots> = unat page div unat (RELSEG_SIZE ly)" by (rule n1(3))
    finally show "(unat page + unat n2 - 1) div unat (RELSEG_SIZE ly) \<le> unat page div unat (RELSEG_SIZE ly)" .
    show "unat page div unat (RELSEG_SIZE ly) \<le> (unat page + unat n2 - 1) div unat (RELSEG_SIZE ly)"
      using n2 by (intro div_le_mono) simp
  qed
  have t2: "unat (page + n2) = unat page + unat n2"
    using nowrap n1 n2 by (intro unat_add_small) simp
  have c3: "(page < startblock \<and> startblock \<le> page + n2)
      = (unat page < unat startblock \<and> unat startblock \<le> unat page + unat n2)"
    by (simp add: word_less_nat_alt word_le_nat_alt t2)
  have d3: "unat page < unat startblock
      \<Longrightarrow> unat (startblock - page) = unat startblock - unat page"
    by (simp add: unat_sub word_le_nat_alt)
  have u3: "unat n = (if unat page < unat startblock \<and> unat startblock \<le> unat page + unat n2
                      then unat startblock - unat page else unat n2)"
    using d3 by (simp add: n c3)
  have n3: "0 < unat n" "unat n \<le> unat n2"
    using u3 n2 by (auto split: if_splits)
  have e: "unat page < unat startblock \<Longrightarrow> unat page + unat n \<le> unat startblock"
    using u3 by (auto split: if_splits)
  have seg3: "(unat page + unat n - 1) div unat (RELSEG_SIZE ly) = unat page div unat (RELSEG_SIZE ly)"
  proof (rule antisym)
    have "(unat page + unat n - 1) div unat (RELSEG_SIZE ly) \<le> (unat page + unat n2 - 1) div unat (RELSEG_SIZE ly)"
      using n3 by (intro div_le_mono) simp
    also have "\<dots> = unat page div unat (RELSEG_SIZE ly)" by (rule seg2)
    finally show "(unat page + unat n - 1) div unat (RELSEG_SIZE ly) \<le> unat page div unat (RELSEG_SIZE ly)" .
    show "unat page div unat (RELSEG_SIZE ly) \<le> (unat page + unat n - 1) div unat (RELSEG_SIZE ly)"
      using n3 by (intro div_le_mono) simp
  qed
  have "0 < n" using n3 by (simp add: word_less_nat_alt)
  moreover have "n \<le> nr_blocks" using n3 n2 n1 by (simp add: word_le_nat_alt)
  moreover have "unat page + unat n \<le> unat nblocks" using n3 n2 by simp
  ultimately show ?thesis using seg3 e by (simp add: word_less_nat_alt)
qed


text \<open>
  The same for the function as a whole, without the columnar cache: the reservation is
  \<^verbatim>\<open>rs_cblock\<close>, \<^verbatim>\<open>rs_numblocks\<close>, and the shared cursor moves behind it, wraps to 0 at the
  end of the relation and becomes \<^verbatim>\<open>InvalidBlockNumber\<close> when it is at the start block.
\<close>

lemma nextpage_no_wrap:
  assumes fresh: "rs_numblocks scan = 0"
    and start: "phs_startblock (rs_parallel scan) \<noteq> InvalidBlockNumber"
    and cur: "phs_cblock (rs_parallel scan) \<noteq> InvalidBlockNumber"
    and page: "phs_cblock (rs_parallel scan) < rs_nblocks scan"
    and nr: "0 < nr_blocks" "nr_blocks < RELSEG_SIZE ly"
    and nowrap: "unat (phs_cblock (rs_parallel scan)) + unat nr_blocks < 2 ^ 32"
  shows "\<exists>r. gpuscan_parallel_nextpage ly env False scan nr_blocks = Some (Inr r)
     \<and> rs_cblock (np_scan r) = phs_cblock (rs_parallel scan)
     \<and> 0 < rs_numblocks (np_scan r) \<and> rs_numblocks (np_scan r) \<le> nr_blocks
     \<and> (unat (rs_cblock (np_scan r)) + unat (rs_numblocks (np_scan r)) - 1)
           div unat (RELSEG_SIZE ly)
         = unat (rs_cblock (np_scan r)) div unat (RELSEG_SIZE ly)
     \<and> unat (rs_cblock (np_scan r)) + unat (rs_numblocks (np_scan r)) \<le> unat (rs_nblocks scan)
     \<and> (rs_cblock (np_scan r) < phs_startblock (rs_parallel scan)
          \<longrightarrow> unat (rs_cblock (np_scan r)) + unat (rs_numblocks (np_scan r))
                \<le> unat (phs_startblock (rs_parallel scan)))
     \<and> phs_cblock (rs_parallel (np_scan r))
         = (let next = rs_cblock (np_scan r) + rs_numblocks (np_scan r);
                next = (if rs_nblocks scan \<le> next then 0 else next)
            in if next = phs_startblock (rs_parallel scan) then InvalidBlockNumber else next)"
proof -
  define n where "n = nextpage_nr_blocks ly (rs_nblocks scan) (phs_startblock (rs_parallel scan))
                        (phs_cblock (rs_parallel scan)) nr_blocks"
  note inv = nextpage_nr_blocks_no_wrap [OF page nr nowrap,
      of "phs_startblock (rs_parallel scan)", folded n_def]
  have sb: "nextpage_startblock env (rs_parallel scan) InvalidBlockNumber = Some (rs_parallel scan)"
    using start by (simp add: nextpage_startblock.simps)
  have "gpuscan_parallel_nextpage ly env False scan nr_blocks
      = Some (Inr (nextpage_finish scan
           ((rs_parallel scan)\<lparr>phs_cblock :=
               (let next = phs_cblock (rs_parallel scan) + n;
                    next = (if rs_nblocks scan \<le> next then 0 else next)
                in if next = phs_startblock (rs_parallel scan) then InvalidBlockNumber else next)\<rparr>)
           (phs_cblock (rs_parallel scan)) n None
           (let next = phs_cblock (rs_parallel scan) + n;
                next = (if rs_nblocks scan \<le> next then 0 else next)
            in if next = phs_startblock (rs_parallel scan)
               then phs_startblock (rs_parallel scan) else InvalidBlockNumber)))"
    using fresh cur page nr inv
    by (simp add: gpuscan_parallel_nextpage_def sb Let_def n_def [symmetric])
  then show ?thesis using inv
    by (auto simp: nextpage_finish_def Let_def)
qed

text \<open>
  An ordinary reservation: eight blocks are asked for at block 131070 of a relation of
  300000 blocks; the segment boundary at 131072 cuts the reservation to two blocks and
  the cursor moves to 131072.
\<close>

lemma nextpage_ok_sample:
  "map_option (map_sum id (\<lambda>r. (rs_cblock (np_scan r), rs_numblocks (np_scan r),
                                  phs_cblock (rs_parallel (np_scan r)))))
     (gpuscan_parallel_nextpage layout_sample nextpage_env_sample False
        (scan_sample 300000 1000 131070) 8)
     = Some (Inr (131070, 2, 131072))"
  by (simp add: nextpage_defs Let_def)

text \<open>
  C9. Every reservation (start, count) taken under the lock of the shared cursor lies
  within one segment, does not extend past the end of the relation and does not cross
  the start block of the scan; and when the advanced cursor reaches the start block, it
  is set to the invalid block number. The code does not keep the second of these: the
  test \<^verbatim>\<open>page + nr_blocks > scan->rs_nblocks\<close> is made in 32 bits. For a relation of
  \<open>0xFFFFFFFF\<close> blocks (the largest there is; its last block is \<open>0xFFFFFFFE\<close>), the
  cursor at \<open>0xFFFFFFF8\<close> and eight blocks asked for, the sum is 0, the reservation is not
  cut, and it is the eight blocks \<open>0xFFFFFFF8\<close> .. \<open>0xFFFFFFFF\<close>, one more than the
  relation has. The second conjunct is the negation of the bound that holds without the
  wrap: the relation has fewer blocks than the reservation's start plus its count.
\<close>

theorem nextpage_past_end:
  "map_option (map_sum id (\<lambda>r. (rs_cblock (np_scan r), rs_numblocks (np_scan r),
                                  phs_cblock (rs_parallel (np_scan r)))))
     (gpuscan_parallel_nextpage layout_sample nextpage_env_sample False
        (scan_sample 0xFFFFFFFF 0 0xFFFFFFF8) 8)
     = Some (Inr (0xFFFFFFF8, 8, InvalidBlockNumber))
   \<and> unat (rs_nblocks (scan_sample 0xFFFFFFFF 0 0xFFFFFFF8))
        < unat (0xFFFFFFF8 :: BlockNumber) + unat (8 :: cl_uint)"
  by (simp add: nextpage_defs Let_def)

end
